theory Spec2Isabelle
  imports Main "HOL-Library.Word"
begin

unbundle bit_operations_syntax

section \<open>Data model\<close>

text \<open>
  The enumerations and the \<open>LightState\<close> structure of the light HAL interface
  (android.hardware.light, version 2.0) that \<open>Light.cpp\<close> is written against.
  \<open>color\<close> is a \<open>uint32_t\<close>, the two flash durations are \<open>int32_t\<close>
  (32-bit words read as signed by \<open>sint\<close>).
\<close>

datatype Flash = NONE | TIMED | HARDWARE

datatype Brightness = USER | SENSOR | LOW_PERSISTENCE

datatype Type = BACKLIGHT | KEYBOARD | BUTTONS | BATTERY | NOTIFICATIONS | ATTENTION
  | BLUETOOTH | WIFI

datatype Status = SUCCESS | LIGHT_NOT_SUPPORTED | BRIGHTNESS_NOT_SUPPORTED | UNKNOWN

record LightState =
  color :: "32 word"
  flashMode :: Flash
  flashOnMs :: "32 word"
  flashOffMs :: "32 word"
  brightnessMode :: Brightness

text \<open>
  The output streams of the \<open>Light\<close> object. \<open>mLcdBacklight\<close> and
  \<open>mKeyboardBacklight\<close> are pairs of a stream and a number: the stream is the
  sink named \<open>..._first\<close> here, the number is a field of the object state below.
  \<open>mButtonBacklight\<close> is a vector of streams, addressed by position.
\<close>

datatype sink =
    mLcdBacklight_first | mKeyboardBacklight_first | mButtonBacklight nat
  | mRedLed | mGreenLed | mBlueLed
  | mRedDutyPcts | mGreenDutyPcts | mBlueDutyPcts
  | mRedStartIdx | mGreenStartIdx | mBlueStartIdx
  | mRedPauseLo | mGreenPauseLo | mBluePauseLo
  | mRedPauseHi | mGreenPauseHi | mBluePauseHi
  | mRedRampStepMs | mGreenRampStepMs | mBlueRampStepMs
  | mRedBlink | mGreenBlink | mBlueBlink

text \<open>
  One \<open>stream << value << std::endl\<close>: the value handed to the stream, a number
  (\<open>int\<close> or \<open>uint32_t\<close>) or a \<open>std::string\<close>.
\<close>

datatype line = Num int | Text string

text \<open>
  The mutable state of the \<open>Light\<close> object together with everything it has
  written so far, in the order of the writes.
\<close>

record Light =
  mLcdBacklight_second :: "32 word"
  mKeyboardBacklight_second :: "32 word"
  mButtonBacklight_size :: nat
  mLcdBacklightOn :: bool
  mSliderOpen :: bool
  mAttentionState :: LightState
  mBatteryState :: LightState
  mNotificationState :: LightState
  out :: "(sink \<times> line) list"

definition put :: "sink \<Rightarrow> line \<Rightarrow> Light \<Rightarrow> Light" where
  "put k v s = s\<lparr>out := out s @ [(k, v)]\<rparr>"

section \<open>Constants and helpers of the anonymous namespace\<close>

definition RAMP_SIZE :: int where
  "RAMP_SIZE = 8"

definition RAMP_STEP_DURATION :: int where
  "RAMP_STEP_DURATION = 50"

definition BRIGHTNESS_RAMP :: "int list" where
  "BRIGHTNESS_RAMP = [0, 12, 25, 37, 50, 72, 85, 100]"

definition DEFAULT_MAX_BRIGHTNESS :: int where
  "DEFAULT_MAX_BRIGHTNESS = 255"

text \<open>Division of C++ \<open>int\<close>: the quotient is truncated towards zero.\<close>

definition c_div :: "int \<Rightarrow> int \<Rightarrow> int" where
  "c_div a b = sgn a * sgn b * (\<bar>a\<bar> div \<bar>b\<bar>)"

text \<open>\<open>std::to_string\<close> on an \<open>int\<close>: decimal digits, a minus sign when negative.\<close>

definition digit_char :: "nat \<Rightarrow> char" where
  "digit_char d = char_of (48 + d)"

function string_of_nat :: "nat \<Rightarrow> string" where
  "string_of_nat n =
     (if n < 10 then [digit_char n] else string_of_nat (n div 10) @ [digit_char (n mod 10)])"
  by pat_completeness auto
termination
  by (relation "measure id") auto

declare string_of_nat.simps [simp del]

definition to_string :: "int \<Rightarrow> string" where
  "to_string i = (if i < 0 then CHR ''-'' # string_of_nat (nat (- i)) else string_of_nat (nat i))"

definition rgbToBrightness :: "LightState \<Rightarrow> 32 word" where
  "rgbToBrightness state =
     (let color = color state AND 0x00ffffff
      in drop_bit 8 (77 * (drop_bit 16 color AND 0xff) + 150 * (drop_bit 8 color AND 0xff)
                     + 29 * (color AND 0xff)))"

definition isLit :: "LightState \<Rightarrow> bool" where
  "isLit state = (color state AND 0x00ffffff \<noteq> 0)"

text \<open>
  The loop of \<open>getScaledDutyPcts\<close> over \<open>BRIGHTNESS_RAMP\<close>, carrying \<open>buf\<close>
  and \<open>pad\<close>.
\<close>

fun getScaledDutyPcts_loop :: "int \<Rightarrow> int list \<Rightarrow> string \<Rightarrow> string \<Rightarrow> string" where
  "getScaledDutyPcts_loop brightness [] buf pad = buf"
| "getScaledDutyPcts_loop brightness (i # rest) buf pad =
     getScaledDutyPcts_loop brightness rest
       (buf @ pad @ to_string (c_div (i * brightness) 255)) '',''"

definition getScaledDutyPcts :: "int \<Rightarrow> string" where
  "getScaledDutyPcts brightness = getScaledDutyPcts_loop brightness BRIGHTNESS_RAMP [] []"

section \<open>The methods of \<open>Light\<close>\<close>

text \<open>
  Every public method holds \<open>mLock\<close> for its whole body, so each one is a function
  from the state before to the state after.
\<close>

definition setKeyboardBacklightLocked :: "Light \<Rightarrow> Light" where
  "setKeyboardBacklightLocked s =
     (let s1 = s\<lparr>mKeyboardBacklight_second :=
                   (if mSliderOpen s \<and> mLcdBacklightOn s
                    then word_of_int DEFAULT_MAX_BRIGHTNESS else 0)\<rparr>
      in put mKeyboardBacklight_first (Num (uint (mKeyboardBacklight_second s1))) s1)"

definition onSliderChanged :: "bool \<Rightarrow> Light \<Rightarrow> Light" where
  "onSliderChanged open s = setKeyboardBacklightLocked (s\<lparr>mSliderOpen := open\<rparr>)"

definition setLcdBacklight :: "LightState \<Rightarrow> Light \<Rightarrow> Light" where
  "setLcdBacklight state s =
     (let s1 = s\<lparr>mLcdBacklightOn := (color state \<noteq> 0)\<rparr>;
          brightness = rgbToBrightness state;
          brightness =
            (if mLcdBacklight_second s1 \<noteq> word_of_int DEFAULT_MAX_BRIGHTNESS
             then brightness * mLcdBacklight_second s1 div word_of_int DEFAULT_MAX_BRIGHTNESS
             else brightness);
          s2 = put mLcdBacklight_first (Num (uint brightness)) s1
      in setKeyboardBacklightLocked s2)"

text \<open>The range-for over the vector of button streams, by position.\<close>

fun setButtonsBacklight_loop :: "32 word \<Rightarrow> nat list \<Rightarrow> Light \<Rightarrow> Light" where
  "setButtonsBacklight_loop brightness [] s = s"
| "setButtonsBacklight_loop brightness (button # rest) s =
     setButtonsBacklight_loop brightness rest
       (put (mButtonBacklight button) (Num (uint brightness)) s)"

definition setButtonsBacklight :: "LightState \<Rightarrow> Light \<Rightarrow> Light" where
  "setButtonsBacklight state s =
     (let brightness = rgbToBrightness state
      in setButtonsBacklight_loop brightness [0 ..< mButtonBacklight_size s] s)"

definition setSpeakerLightLocked :: "LightState \<Rightarrow> Light \<Rightarrow> Light" where
  "setSpeakerLightLocked state s =
     (let colorRGB = color state;
          (onMs, offMs) =
            (case flashMode state of
               TIMED \<Rightarrow> (sint (flashOnMs state), sint (flashOffMs state))
             | _ \<Rightarrow> (0, 0));
          red = uint (drop_bit 16 colorRGB AND 0xff);
          green = uint (drop_bit 8 colorRGB AND 0xff);
          blue = uint (colorRGB AND 0xff);
          blink = (onMs > 0 \<and> offMs > 0)
      in if blink then
           (let stepDuration = RAMP_STEP_DURATION;
                pauseHi = onMs - (stepDuration * RAMP_SIZE * 2);
                (stepDuration, pauseHi) =
                  (if stepDuration * RAMP_SIZE * 2 > onMs
                   then (c_div onMs (RAMP_SIZE * 2), 0)
                   else (stepDuration, pauseHi));
                s = put mRedStartIdx (Num 0) s;
                s = put mRedDutyPcts (Text (getScaledDutyPcts red)) s;
                s = put mRedPauseLo (Num offMs) s;
                s = put mRedPauseHi (Num pauseHi) s;
                s = put mRedRampStepMs (Num stepDuration) s;
                s = put mGreenStartIdx (Num RAMP_SIZE) s;
                s = put mGreenDutyPcts (Text (getScaledDutyPcts green)) s;
                s = put mGreenPauseLo (Num offMs) s;
                s = put mGreenPauseHi (Num pauseHi) s;
                s = put mGreenRampStepMs (Num stepDuration) s;
                s = put mBlueStartIdx (Num (RAMP_SIZE * 2)) s;
                s = put mBlueDutyPcts (Text (getScaledDutyPcts blue)) s;
                s = put mBluePauseLo (Num offMs) s;
                s = put mBluePauseHi (Num pauseHi) s
            in put mBlueRampStepMs (Num stepDuration) s)
         else
           (let s = (if red = 0 \<and> green = 0 \<and> blue = 0
                     then put mBlueBlink (Num 0) (put mGreenBlink (Num 0) (put mRedBlink (Num 0) s))
                     else s);
                s = put mRedLed (Num red) s;
                s = put mGreenLed (Num green) s
            in put mBlueLed (Num blue) s))"

definition setSpeakerBatteryLightLocked :: "Light \<Rightarrow> Light" where
  "setSpeakerBatteryLightLocked s =
     (if isLit (mNotificationState s) then setSpeakerLightLocked (mNotificationState s) s
      else if isLit (mAttentionState s) then setSpeakerLightLocked (mAttentionState s) s
      else if isLit (mBatteryState s) then setSpeakerLightLocked (mBatteryState s) s
      else
        (let s = put mRedLed (Num 0) s;
             s = put mGreenLed (Num 0) s;
             s = put mBlueLed (Num 0) s;
             s = put mRedBlink (Num 0) s;
             s = put mGreenBlink (Num 0) s
         in put mBlueBlink (Num 0) s))"

definition setAttentionLight :: "LightState \<Rightarrow> Light \<Rightarrow> Light" where
  "setAttentionLight state s = setSpeakerBatteryLightLocked (s\<lparr>mAttentionState := state\<rparr>)"

definition setBatteryLight :: "LightState \<Rightarrow> Light \<Rightarrow> Light" where
  "setBatteryLight state s = setSpeakerBatteryLightLocked (s\<lparr>mBatteryState := state\<rparr>)"

definition setNotificationLight :: "LightState \<Rightarrow> Light \<Rightarrow> Light" where
  "setNotificationLight state s =
     (let localState = state;
          brightness = drop_bit 24 (color localState AND 0xff000000);
          localState =
            (if brightness > 0 \<and> brightness < 255 then
               (let color = color localState AND 0x00ffffff;
                    rgb0 = drop_bit 16 color AND 0xff;
                    rgb1 = drop_bit 8 color AND 0xff;
                    rgb2 = color AND 0xff;
                    rgb0 = (if rgb0 > 0 then (rgb0 * brightness) div 0xff else rgb0);
                    rgb1 = (if rgb1 > 0 then (rgb1 * brightness) div 0xff else rgb1);
                    rgb2 = (if rgb2 > 0 then (rgb2 * brightness) div 0xff else rgb2)
                in localState\<lparr>color := push_bit 16 rgb0 + push_bit 8 rgb1 + rgb2\<rparr>)
             else localState)
      in setSpeakerBatteryLightLocked (s\<lparr>mNotificationState := localState\<rparr>))"

text \<open>The dispatch table \<open>mLights\<close>, as the constructor fills it.\<close>

definition mLights :: "Type \<rightharpoonup> (LightState \<Rightarrow> Light \<Rightarrow> Light)" where
  "mLights =
     [ATTENTION \<mapsto> setAttentionLight,
      BACKLIGHT \<mapsto> setLcdBacklight,
      BATTERY \<mapsto> setBatteryLight,
      BUTTONS \<mapsto> setButtonsBacklight,
      NOTIFICATIONS \<mapsto> setNotificationLight]"

definition setLight :: "Type \<Rightarrow> LightState \<Rightarrow> Light \<Rightarrow> Status \<times> Light" where
  "setLight type state s =
     (case mLights type of
        None \<Rightarrow> (LIGHT_NOT_SUPPORTED, s)
      | Some f \<Rightarrow> (SUCCESS, f state s))"

text \<open>
  The constructor: it stores the two maxima and the button streams, clears
  \<open>mLcdBacklightOn\<close> and \<open>mSliderOpen\<close>, and has written nothing yet. Its
  initialiser list does not mention the three stored light states, so their first
  content is a parameter here.
\<close>

definition Light_constructor ::
  "32 word \<Rightarrow> 32 word \<Rightarrow> nat \<Rightarrow> LightState \<Rightarrow> LightState \<Rightarrow> LightState \<Rightarrow> Light" where
  "Light_constructor lcd_backlight_second keyboard_backlight_second button_backlight_size
       attention battery notification =
     \<lparr>mLcdBacklight_second = lcd_backlight_second,
      mKeyboardBacklight_second = keyboard_backlight_second,
      mButtonBacklight_size = button_backlight_size,
      mLcdBacklightOn = False,
      mSliderOpen = False,
      mAttentionState = attention,
      mBatteryState = battery,
      mNotificationState = notification,
      out = []\<rparr>"

section \<open>The slider monitor\<close>

text \<open>
  One \<open>struct input_event\<close> read by \<open>sliderMonitorThread\<close> (the time stamp is
  never looked at), with the two constants of the Linux input header it compares
  against, and the body of its inner loop for one event.
\<close>

record input_event =
  ev_type :: "16 word"
  ev_code :: "16 word"
  ev_value :: "32 word"

definition EV_SW :: "16 word" where
  "EV_SW = 0x05"

definition SW_LID :: "16 word" where
  "SW_LID = 0x00"

definition sliderMonitorThread_event :: "input_event \<Rightarrow> Light \<Rightarrow> Light" where
  "sliderMonitorThread_event ev s =
     (if ev_type ev \<noteq> EV_SW \<or> ev_code ev \<noteq> SW_LID then s
      else (let open = (ev_value ev = 0) in onSliderChanged open s))"

section \<open>Runs of the service\<close>

text \<open>
  The lock serialises the calls of the request threads and the callbacks of the
  monitor thread: a run is a sequence of them, applied to the constructed object.
\<close>

datatype event = Call Type LightState | Input input_event

fun step :: "Light \<Rightarrow> event \<Rightarrow> Light" where
  "step s (Call type state) = snd (setLight type state s)"
| "step s (Input ev) = sliderMonitorThread_event ev s"

definition run :: "Light \<Rightarrow> event list \<Rightarrow> Light" where
  "run s evs = foldl step s evs"

text \<open>What a step from \<open>s\<close> to \<open>s'\<close> has written.\<close>

definition written :: "Light \<Rightarrow> Light \<Rightarrow> (sink \<times> line) list" where
  "written s s' = drop (length (out s)) (out s')"

section \<open>The notions of the specification\<close>

text \<open>
  The specification's priority rule, in its own words: of notification, attention and
  battery, in this order, the first source whose colour masked to the low 24 bits is
  not zero.
\<close>

definition spec_winner :: "Light \<Rightarrow> LightState option" where
  "spec_winner s =
     find (\<lambda>st. color st AND 0x00ffffff \<noteq> 0)
       [mNotificationState s, mAttentionState s, mBatteryState s]"

text \<open>
  The specification's three output modes of the shared LED: off when no source wins,
  blinking when the winner has flash mode TIMED with positive on and off durations,
  steady colour otherwise.
\<close>

datatype mode = Off | SteadyColor | Blinking

definition spec_blinks :: "LightState \<Rightarrow> bool" where
  "spec_blinks st = (flashMode st = TIMED \<and> 0 < sint (flashOnMs st) \<and> 0 < sint (flashOffMs st))"

definition spec_mode :: "Light \<Rightarrow> mode" where
  "spec_mode s =
     (case spec_winner s of
        None \<Rightarrow> Off
      | Some w \<Rightarrow> if spec_blinks w then Blinking else SteadyColor)"

text \<open>
  The specification's view of a run: whether the slider is open is what the last
  lid event said (closed before the first one), and the last LCD colour is the
  colour of the last BACKLIGHT request (none before the first one).
\<close>

definition is_slider_event :: "event \<Rightarrow> bool" where
  "is_slider_event e =
     (case e of Input ev \<Rightarrow> ev_type ev = EV_SW \<and> ev_code ev = SW_LID | Call t st \<Rightarrow> False)"

definition is_backlight_call :: "event \<Rightarrow> bool" where
  "is_backlight_call e = (case e of Call t st \<Rightarrow> t = BACKLIGHT | Input ev \<Rightarrow> False)"

fun spec_slider_open :: "bool \<Rightarrow> event list \<Rightarrow> bool" where
  "spec_slider_open b [] = b"
| "spec_slider_open b (Input ev # evs) =
     spec_slider_open (if ev_type ev = EV_SW \<and> ev_code ev = SW_LID then ev_value ev = 0 else b) evs"
| "spec_slider_open b (Call t st # evs) = spec_slider_open b evs"

fun spec_last_lcd_color :: "32 word option \<Rightarrow> event list \<Rightarrow> 32 word option" where
  "spec_last_lcd_color c [] = c"
| "spec_last_lcd_color c (Call t st # evs) =
     spec_last_lcd_color (if t = BACKLIGHT then Some (color st) else c) evs"
| "spec_last_lcd_color c (Input ev # evs) = spec_last_lcd_color c evs"

section \<open>Concrete inputs\<close>

text \<open>Shorthand for the concrete light states and objects the examples are run on.\<close>

abbreviation ex_steady :: "32 word \<Rightarrow> LightState" where
  "ex_steady c \<equiv>
     \<lparr>color = c, flashMode = NONE, flashOnMs = 0, flashOffMs = 0, brightnessMode = USER\<rparr>"

abbreviation ex_timed :: "32 word \<Rightarrow> 32 word \<Rightarrow> 32 word \<Rightarrow> LightState" where
  "ex_timed c on off \<equiv>
     \<lparr>color = c, flashMode = TIMED, flashOnMs = on, flashOffMs = off, brightnessMode = USER\<rparr>"

abbreviation ex_light :: "LightState \<Rightarrow> LightState \<Rightarrow> LightState \<Rightarrow> Light" where
  "ex_light attention battery notification \<equiv>
     Light_constructor 255 255 2 attention battery notification"

abbreviation ex_lid :: "32 word \<Rightarrow> input_event" where
  "ex_lid v \<equiv> \<lparr>ev_type = 0x05, ev_code = 0x00, ev_value = v\<rparr>"

section \<open>Bytes of a colour\<close>

lemma and_ff: "(w :: 32 word) AND 0xff = take_bit 8 w"
proof -
  have "(0xff :: 32 word) = mask 8" by (simp add: mask_eq_exp_minus_1)
  then show ?thesis by (simp add: take_bit_eq_mask)
qed

lemma and_ffffff: "(w :: 32 word) AND 0xffffff = take_bit 24 w"
proof -
  have "(0xffffff :: 32 word) = mask 24" by (simp add: mask_eq_exp_minus_1)
  then show ?thesis by (simp add: take_bit_eq_mask)
qed

lemma unat_and_ff: "unat ((w :: 32 word) AND 0xff) = unat w mod 256"
  by (simp add: and_ff unsigned_take_bit_eq take_bit_eq_mod unat_mod)

lemma unat_and_ffffff: "unat ((w :: 32 word) AND 0xffffff) = unat w mod 16777216"
  by (simp add: and_ffffff unsigned_take_bit_eq take_bit_eq_mod unat_mod)

lemma unat_drop: "unat (drop_bit n (w :: 32 word)) = unat w div 2 ^ n"
  by (simp only: unat_drop_bit_eq drop_bit_eq_div [where ?'a = nat])

lemma low24_bytes:
  fixes n :: nat
  shows "n mod 16777216 = 65536 * (n div 65536 mod 256) + 256 * (n div 256 mod 256) + n mod 256"
proof -
  have a: "n mod (256 * 65536) = 256 * (n div 256 mod 65536) + n mod 256"
    by (rule mod_mult2_eq)
  have b: "n div 256 mod (256 * 256) = 256 * (n div 256 div 256 mod 256) + n div 256 mod 256"
    by (rule mod_mult2_eq)
  have c: "n div 256 div 256 = n div 65536"
    by (simp add: div_mult2_eq [symmetric])
  show ?thesis
    using a b c by simp
qed

lemma mod_div_bytes:
  fixes n :: nat
  shows "n mod 16777216 div 65536 mod 256 = n div 65536 mod 256"
    and "n mod 16777216 div 256 mod 256 = n div 256 mod 256"
    and "n mod 16777216 mod 256 = n mod 256"
proof -
  have "n mod (65536 * 256) = 65536 * (n div 65536 mod 256) + n mod 65536"
    by (rule mod_mult2_eq)
  then show "n mod 16777216 div 65536 mod 256 = n div 65536 mod 256"
    by simp
  have "n mod (256 * 65536) = 256 * (n div 256 mod 65536) + n mod 256"
    by (rule mod_mult2_eq)
  then have "n mod 16777216 div 256 = n div 256 mod 65536"
    by simp
  moreover have "n div 256 mod 65536 mod 256 = n div 256 mod 256"
    by (rule mod_mod_cancel) simp
  ultimately show "n mod 16777216 div 256 mod 256 = n div 256 mod 256"
    by simp
  show "n mod 16777216 mod 256 = n mod 256"
    by (rule mod_mod_cancel) simp
qed

lemma channels_zero_iff:
  fixes c :: "32 word"
  shows "(drop_bit 16 c AND 0xff = 0 \<and> drop_bit 8 c AND 0xff = 0 \<and> c AND 0xff = 0)
         \<longleftrightarrow> c AND 0xffffff = 0"
proof -
  define n where "n = unat c"
  have "(n div 65536 mod 256 = 0 \<and> n div 256 mod 256 = 0 \<and> n mod 256 = 0)
        \<longleftrightarrow> n mod 16777216 = 0"
    using low24_bytes [of n] by simp
  then have "(unat (drop_bit 16 c AND 0xff) = 0 \<and> unat (drop_bit 8 c AND 0xff) = 0
              \<and> unat (c AND 0xff) = 0) \<longleftrightarrow> unat (c AND 0xffffff) = 0"
    by (simp add: unat_and_ff unat_drop unat_and_ffffff n_def)
  then show ?thesis
    by (simp only: unat_eq_0)
qed

lemma unat_weighted:
  fixes a b c :: "32 word"
  assumes "unat a < 256" "unat b < 256" "unat c < 256"
  shows "unat (77 * a + 150 * b + 29 * c) = 77 * unat a + 150 * unat b + 29 * unat c"
proof -
  have "77 * unat a + 150 * unat b + 29 * unat c < 2 ^ 32"
    using assms by simp
  then show ?thesis
    by (simp add: unat_word_ariths mod_add_eq mod_mult_right_eq)
qed

section \<open>Luminance\<close>

text \<open>
  C5. For every 32-bit colour, read as a number \<open>n\<close> with red byte
  \<open>n div 65536 mod 256\<close>, green byte \<open>n div 256 mod 256\<close> and blue byte
  \<open>n mod 256\<close>, the luminance \<open>rgbToBrightness\<close> is
  \<open>(77 * R + 150 * G + 29 * B) div 256\<close> computed without wrap-around, and it is the
  same for the colour with its alpha byte masked off.
\<close>

theorem rgbToBrightness_luminance:
  "unat (rgbToBrightness st) =
     (77 * (unat (color st) div 65536 mod 256) + 150 * (unat (color st) div 256 mod 256)
      + 29 * (unat (color st) mod 256)) div 256
   \<and> rgbToBrightness (st\<lparr>color := color st AND 0x00ffffff\<rparr>) = rgbToBrightness st"
proof -
  define n where "n = unat (color st)"
  define R where "R = drop_bit 16 (color st AND 0x00ffffff) AND 0xff"
  define G where "G = drop_bit 8 (color st AND 0x00ffffff) AND 0xff"
  define B where "B = (color st AND 0x00ffffff) AND 0xff"
  have r: "unat R = n div 65536 mod 256"
    unfolding R_def unat_and_ff unat_drop unat_and_ffffff n_def by (simp add: mod_div_bytes)
  have g: "unat G = n div 256 mod 256"
    unfolding G_def unat_and_ff unat_drop unat_and_ffffff n_def by (simp add: mod_div_bytes)
  have b: "unat B = n mod 256"
    unfolding B_def unat_and_ff unat_drop unat_and_ffffff n_def by (simp add: mod_div_bytes)
  have "rgbToBrightness st = drop_bit 8 (77 * R + 150 * G + 29 * B)"
    unfolding rgbToBrightness_def Let_def R_def G_def B_def ..
  then have "unat (rgbToBrightness st) = unat (77 * R + 150 * G + 29 * B) div 2 ^ 8"
    by (simp only: unat_drop)
  also have "unat (77 * R + 150 * G + 29 * B) = 77 * unat R + 150 * unat G + 29 * unat B"
    by (rule unat_weighted) (simp_all add: r g b)
  finally have lum: "unat (rgbToBrightness st) =
     (77 * (n div 65536 mod 256) + 150 * (n div 256 mod 256) + 29 * (n mod 256)) div 256"
    by (simp add: r g b)
  have alpha: "rgbToBrightness (st\<lparr>color := color st AND 0x00ffffff\<rparr>) = rgbToBrightness st"
    by (simp add: rgbToBrightness_def Let_def)
  from lum alpha show ?thesis
    by (simp add: n_def)
qed

section \<open>What the shared-LED render writes\<close>

lemma written_append: "out s' = out s @ ws \<Longrightarrow> written s s' = ws"
  by (simp add: written_def)

lemma c_div_pos: "0 \<le> a \<Longrightarrow> 0 < b \<Longrightarrow> c_div a b = a div b"
  by (cases "a = 0") (simp_all add: c_div_def)

lemma speaker_blink_out:
  assumes "flashMode st = TIMED" "0 < sint (flashOnMs st)" "0 < sint (flashOffMs st)"
  shows "out (setSpeakerLightLocked st s) = out s @
     [(mRedStartIdx, Num 0),
      (mRedDutyPcts, Text (getScaledDutyPcts (uint (drop_bit 16 (color st) AND 0xff)))),
      (mRedPauseLo, Num (sint (flashOffMs st))),
      (mRedPauseHi, Num (if 800 \<le> sint (flashOnMs st) then sint (flashOnMs st) - 800 else 0)),
      (mRedRampStepMs, Num (if 800 \<le> sint (flashOnMs st) then 50 else sint (flashOnMs st) div 16)),
      (mGreenStartIdx, Num 8),
      (mGreenDutyPcts, Text (getScaledDutyPcts (uint (drop_bit 8 (color st) AND 0xff)))),
      (mGreenPauseLo, Num (sint (flashOffMs st))),
      (mGreenPauseHi, Num (if 800 \<le> sint (flashOnMs st) then sint (flashOnMs st) - 800 else 0)),
      (mGreenRampStepMs, Num (if 800 \<le> sint (flashOnMs st) then 50 else sint (flashOnMs st) div 16)),
      (mBlueStartIdx, Num 16),
      (mBlueDutyPcts, Text (getScaledDutyPcts (uint (color st AND 0xff)))),
      (mBluePauseLo, Num (sint (flashOffMs st))),
      (mBluePauseHi, Num (if 800 \<le> sint (flashOnMs st) then sint (flashOnMs st) - 800 else 0)),
      (mBlueRampStepMs, Num (if 800 \<le> sint (flashOnMs st) then 50 else sint (flashOnMs st) div 16))]"
  using assms
  by (simp add: setSpeakerLightLocked_def Let_def put_def RAMP_SIZE_def RAMP_STEP_DURATION_def
      c_div_pos)

lemma speaker_steady_out:
  assumes "\<not> (flashMode st = TIMED \<and> 0 < sint (flashOnMs st) \<and> 0 < sint (flashOffMs st))"
  shows "out (setSpeakerLightLocked st s) = out s @
     (if color st AND 0xffffff = 0
      then [(mRedBlink, Num 0), (mGreenBlink, Num 0), (mBlueBlink, Num 0)] else []) @
     [(mRedLed, Num (uint (drop_bit 16 (color st) AND 0xff))),
      (mGreenLed, Num (uint (drop_bit 8 (color st) AND 0xff))),
      (mBlueLed, Num (uint (color st AND 0xff)))]"
  using assms channels_zero_iff [of "color st"]
  by (cases "flashMode st")
     (auto simp add: setSpeakerLightLocked_def Let_def put_def uint_0_iff)

lemma speaker_frame: "setSpeakerLightLocked st s = s\<lparr>out := out (setSpeakerLightLocked st s)\<rparr>"
  by (simp add: setSpeakerLightLocked_def Let_def put_def split: prod.split Flash.split)

lemma render_frame:
  "setSpeakerBatteryLightLocked s = s\<lparr>out := out (setSpeakerBatteryLightLocked s)\<rparr>"
  using speaker_frame
  by (simp add: setSpeakerBatteryLightLocked_def Let_def put_def)

lemma render_off_out:
  assumes "\<not> isLit (mNotificationState s)" "\<not> isLit (mAttentionState s)"
    "\<not> isLit (mBatteryState s)"
  shows "out (setSpeakerBatteryLightLocked s) = out s @
     [(mRedLed, Num 0), (mGreenLed, Num 0), (mBlueLed, Num 0),
      (mRedBlink, Num 0), (mGreenBlink, Num 0), (mBlueBlink, Num 0)]"
  using assms by (simp add: setSpeakerBatteryLightLocked_def Let_def put_def)

lemma spec_winner_cases:
  "spec_winner s =
     (if isLit (mNotificationState s) then Some (mNotificationState s)
      else if isLit (mAttentionState s) then Some (mAttentionState s)
      else if isLit (mBatteryState s) then Some (mBatteryState s)
      else None)"
  by (simp add: spec_winner_def isLit_def)

lemma render_winner:
  "spec_winner s = Some w \<Longrightarrow> setSpeakerBatteryLightLocked s = setSpeakerLightLocked w s"
  by (auto simp add: spec_winner_cases setSpeakerBatteryLightLocked_def split: if_splits)

lemma written_speaker_cong:
  "out s = out s' \<Longrightarrow>
   written s (setSpeakerLightLocked st s) = written s' (setSpeakerLightLocked st s')"
  by (cases "flashMode st = TIMED \<and> 0 < sint (flashOnMs st) \<and> 0 < sint (flashOffMs st)")
     (simp_all add: speaker_blink_out speaker_steady_out written_def)

text \<open>
  C1. For every triple of stored source states the shared-LED render is the render of
  the specification's winner, the first of notification, attention, battery whose
  colour masked to 24 bits is not zero. So when the notification is lit the render
  writes what it writes with attention and battery dark (notification alone), whatever
  attention and battery hold, in particular when all three are lit; and when the
  notification is dark and attention is lit it writes what it writes with the battery
  dark (attention alone).
\<close>

theorem shared_led_priority:
  "(spec_winner s = Some w \<longrightarrow>
      setSpeakerBatteryLightLocked s = setSpeakerLightLocked w s)
   \<and> (isLit (mNotificationState s) \<and> \<not> isLit a' \<and> \<not> isLit b' \<longrightarrow>
        written s (setSpeakerBatteryLightLocked s) =
        written (s\<lparr>mAttentionState := a', mBatteryState := b'\<rparr>)
          (setSpeakerBatteryLightLocked (s\<lparr>mAttentionState := a', mBatteryState := b'\<rparr>)))
   \<and> (\<not> isLit (mNotificationState s) \<and> isLit (mAttentionState s) \<and> \<not> isLit b' \<longrightarrow>
        written s (setSpeakerBatteryLightLocked s) =
        written (s\<lparr>mBatteryState := b'\<rparr>)
          (setSpeakerBatteryLightLocked (s\<lparr>mBatteryState := b'\<rparr>)))"
proof (intro conjI impI)
  assume "spec_winner s = Some w"
  then show "setSpeakerBatteryLightLocked s = setSpeakerLightLocked w s"
    by (rule render_winner)
next
  assume "isLit (mNotificationState s) \<and> \<not> isLit a' \<and> \<not> isLit b'"
  then show "written s (setSpeakerBatteryLightLocked s) =
        written (s\<lparr>mAttentionState := a', mBatteryState := b'\<rparr>)
          (setSpeakerBatteryLightLocked (s\<lparr>mAttentionState := a', mBatteryState := b'\<rparr>))"
    using written_speaker_cong [of s "s\<lparr>mAttentionState := a', mBatteryState := b'\<rparr>"
        "mNotificationState s"]
    by (simp add: setSpeakerBatteryLightLocked_def)
next
  assume "\<not> isLit (mNotificationState s) \<and> isLit (mAttentionState s) \<and> \<not> isLit b'"
  then show "written s (setSpeakerBatteryLightLocked s) =
        written (s\<lparr>mBatteryState := b'\<rparr>)
          (setSpeakerBatteryLightLocked (s\<lparr>mBatteryState := b'\<rparr>))"
    using written_speaker_cong [of s "s\<lparr>mBatteryState := b'\<rparr>" "mAttentionState s"]
    by (simp add: setSpeakerBatteryLightLocked_def)
qed


theorem shared_led_priority_witness:
  "spec_winner (ex_light (ex_steady 0x00ff00) (ex_steady 0x0000ff) (ex_steady 0xff0000))
     = Some (ex_steady 0xff0000)
   \<and> setSpeakerBatteryLightLocked
         (ex_light (ex_steady 0x00ff00) (ex_steady 0x0000ff) (ex_steady 0xff0000))
       = setSpeakerLightLocked (ex_steady 0xff0000)
           (ex_light (ex_steady 0x00ff00) (ex_steady 0x0000ff) (ex_steady 0xff0000))
   \<and> written (ex_light (ex_steady 0x00ff00) (ex_steady 0x0000ff) (ex_steady 0xff0000))
         (setSpeakerBatteryLightLocked
            (ex_light (ex_steady 0x00ff00) (ex_steady 0x0000ff) (ex_steady 0xff0000)))
       = written (ex_light (ex_steady 0) (ex_steady 0) (ex_steady 0xff0000))
           (setSpeakerBatteryLightLocked
              (ex_light (ex_steady 0) (ex_steady 0) (ex_steady 0xff0000)))
   \<and> written (ex_light (ex_steady 0) (ex_steady 0) (ex_steady 0xff0000))
         (setSpeakerBatteryLightLocked
            (ex_light (ex_steady 0) (ex_steady 0) (ex_steady 0xff0000)))
       = [(mRedLed, Num 255), (mGreenLed, Num 0), (mBlueLed, Num 0)]
   \<and> written (ex_light (ex_steady 0x00ff00) (ex_steady 0x0000ff) (ex_steady 0))
         (setSpeakerBatteryLightLocked
            (ex_light (ex_steady 0x00ff00) (ex_steady 0x0000ff) (ex_steady 0)))
       = written (ex_light (ex_steady 0x00ff00) (ex_steady 0) (ex_steady 0))
           (setSpeakerBatteryLightLocked
              (ex_light (ex_steady 0x00ff00) (ex_steady 0) (ex_steady 0)))"
proof -
  let ?s = "ex_light (ex_steady 0x00ff00) (ex_steady 0x0000ff) (ex_steady 0xff0000)"
  let ?s' = "ex_light (ex_steady 0) (ex_steady 0) (ex_steady 0xff0000)"
  let ?t = "ex_light (ex_steady 0x00ff00) (ex_steady 0x0000ff) (ex_steady 0)"
  let ?t' = "ex_light (ex_steady 0x00ff00) (ex_steady 0) (ex_steady 0)"
  note all_lit = shared_led_priority [of ?s "ex_steady 0xff0000" "ex_steady 0" "ex_steady 0"]
  note two_lit = shared_led_priority [of ?t "ex_steady 0xff0000" "ex_steady 0" "ex_steady 0"]
  have w: "spec_winner ?s = Some (ex_steady 0xff0000)"
    by (simp add: spec_winner_def Light_constructor_def)
  have n: "isLit (mNotificationState ?s) \<and> \<not> isLit (ex_steady 0) \<and> \<not> isLit (ex_steady 0)"
    by (simp add: isLit_def Light_constructor_def)
  have a: "\<not> isLit (mNotificationState ?t) \<and> isLit (mAttentionState ?t) \<and> \<not> isLit (ex_steady 0)"
    by (simp add: isLit_def Light_constructor_def)
  have s': "?s\<lparr>mAttentionState := ex_steady 0, mBatteryState := ex_steady 0\<rparr> = ?s'"
    by (simp add: Light_constructor_def)
  have t': "?t\<lparr>mBatteryState := ex_steady 0\<rparr> = ?t'"
    by (simp add: Light_constructor_def)
  have 1: "setSpeakerBatteryLightLocked ?s = setSpeakerLightLocked (ex_steady 0xff0000) ?s"
    using all_lit w by blast
  have 2: "written ?s (setSpeakerBatteryLightLocked ?s) = written ?s' (setSpeakerBatteryLightLocked ?s')"
    using all_lit n unfolding s' by blast
  have 3: "written ?s' (setSpeakerBatteryLightLocked ?s')
       = [(mRedLed, Num 255), (mGreenLed, Num 0), (mBlueLed, Num 0)]"
    by (simp add: written_def setSpeakerBatteryLightLocked_def setSpeakerLightLocked_def
        isLit_def Light_constructor_def put_def Let_def)
  have 4: "written ?t (setSpeakerBatteryLightLocked ?t) = written ?t' (setSpeakerBatteryLightLocked ?t')"
    using two_lit a unfolding t' by blast
  show ?thesis
    by (intro conjI) (fact w 1 2 3 4)+
qed

text \<open>
  C3. For every state with flash mode TIMED and both durations positive, the blink path
  writes, on each of the three channels, pause-low = \<open>flashOffMs\<close>, and either ramp
  step 50 with pause-high = \<open>flashOnMs - 50 * 16\<close> when \<open>50 * 16\<close> does not exceed
  \<open>flashOnMs\<close>, or ramp step \<open>flashOnMs div 16\<close> with pause-high 0 otherwise. The
  whole list of writes is given; the witness runs 1000/500 (pause-high 200, step 50)
  and 100/500 (step 6, pause-high 0).
\<close>

theorem blink_ramp_timing:
  assumes "flashMode st = TIMED" "0 < sint (flashOnMs st)" "0 < sint (flashOffMs st)"
  shows "written s (setSpeakerLightLocked st s) =
     [(mRedStartIdx, Num 0),
      (mRedDutyPcts, Text (getScaledDutyPcts (uint (drop_bit 16 (color st) AND 0xff)))),
      (mRedPauseLo, Num (sint (flashOffMs st))),
      (mRedPauseHi, Num (if 50 * 16 \<le> sint (flashOnMs st) then sint (flashOnMs st) - 50 * 16 else 0)),
      (mRedRampStepMs, Num (if 50 * 16 \<le> sint (flashOnMs st) then 50 else sint (flashOnMs st) div 16)),
      (mGreenStartIdx, Num 8),
      (mGreenDutyPcts, Text (getScaledDutyPcts (uint (drop_bit 8 (color st) AND 0xff)))),
      (mGreenPauseLo, Num (sint (flashOffMs st))),
      (mGreenPauseHi, Num (if 50 * 16 \<le> sint (flashOnMs st) then sint (flashOnMs st) - 50 * 16 else 0)),
      (mGreenRampStepMs, Num (if 50 * 16 \<le> sint (flashOnMs st) then 50 else sint (flashOnMs st) div 16)),
      (mBlueStartIdx, Num 16),
      (mBlueDutyPcts, Text (getScaledDutyPcts (uint (color st AND 0xff)))),
      (mBluePauseLo, Num (sint (flashOffMs st))),
      (mBluePauseHi, Num (if 50 * 16 \<le> sint (flashOnMs st) then sint (flashOnMs st) - 50 * 16 else 0)),
      (mBlueRampStepMs, Num (if 50 * 16 \<le> sint (flashOnMs st) then 50 else sint (flashOnMs st) div 16))]"
  using speaker_blink_out [OF assms, of s]
  by (simp add: written_def)

theorem blink_ramp_timing_witness:
  "flashMode (ex_timed 0xff8000 1000 500) = TIMED
   \<and> 0 < sint (flashOnMs (ex_timed 0xff8000 1000 500))
   \<and> 0 < sint (flashOffMs (ex_timed 0xff8000 1000 500))
   \<and> written (ex_light (ex_steady 0) (ex_steady 0) (ex_steady 0))
        (setSpeakerLightLocked (ex_timed 0xff8000 1000 500)
           (ex_light (ex_steady 0) (ex_steady 0) (ex_steady 0))) =
       [(mRedStartIdx, Num 0), (mRedDutyPcts, Text ''0,12,25,37,50,72,85,100''),
        (mRedPauseLo, Num 500), (mRedPauseHi, Num 200), (mRedRampStepMs, Num 50),
        (mGreenStartIdx, Num 8), (mGreenDutyPcts, Text ''0,6,12,18,25,36,42,50''),
        (mGreenPauseLo, Num 500), (mGreenPauseHi, Num 200), (mGreenRampStepMs, Num 50),
        (mBlueStartIdx, Num 16), (mBlueDutyPcts, Text ''0,0,0,0,0,0,0,0''),
        (mBluePauseLo, Num 500), (mBluePauseHi, Num 200), (mBlueRampStepMs, Num 50)]
   \<and> flashMode (ex_timed 0xff8000 100 500) = TIMED
   \<and> 0 < sint (flashOnMs (ex_timed 0xff8000 100 500))
   \<and> 0 < sint (flashOffMs (ex_timed 0xff8000 100 500))
   \<and> written (ex_light (ex_steady 0) (ex_steady 0) (ex_steady 0))
        (setSpeakerLightLocked (ex_timed 0xff8000 100 500)
           (ex_light (ex_steady 0) (ex_steady 0) (ex_steady 0))) =
       [(mRedStartIdx, Num 0), (mRedDutyPcts, Text ''0,12,25,37,50,72,85,100''),
        (mRedPauseLo, Num 500), (mRedPauseHi, Num 0), (mRedRampStepMs, Num 6),
        (mGreenStartIdx, Num 8), (mGreenDutyPcts, Text ''0,6,12,18,25,36,42,50''),
        (mGreenPauseLo, Num 500), (mGreenPauseHi, Num 0), (mGreenRampStepMs, Num 6),
        (mBlueStartIdx, Num 16), (mBlueDutyPcts, Text ''0,0,0,0,0,0,0,0''),
        (mBluePauseLo, Num 500), (mBluePauseHi, Num 0), (mBlueRampStepMs, Num 6)]"
proof -
  have d255: "getScaledDutyPcts 255 = ''0,12,25,37,50,72,85,100''"
    by code_simp
  have d128: "getScaledDutyPcts 128 = ''0,6,12,18,25,36,42,50''"
    by code_simp
  have d0: "getScaledDutyPcts 0 = ''0,0,0,0,0,0,0,0''"
    by code_simp
  have h1: "flashMode (ex_timed 0xff8000 1000 500) = TIMED"
    "0 < sint (flashOnMs (ex_timed 0xff8000 1000 500))"
    "0 < sint (flashOffMs (ex_timed 0xff8000 1000 500))"
    by simp_all
  have h2: "flashMode (ex_timed 0xff8000 100 500) = TIMED"
    "0 < sint (flashOnMs (ex_timed 0xff8000 100 500))"
    "0 < sint (flashOffMs (ex_timed 0xff8000 100 500))"
    by simp_all
  show ?thesis
    using blink_ramp_timing [OF h1, of "ex_light (ex_steady 0) (ex_steady 0) (ex_steady 0)"]
      blink_ramp_timing [OF h2, of "ex_light (ex_steady 0) (ex_steady 0) (ex_steady 0)"]
    by (simp add: d255 d128 d0)
qed

section \<open>The notification brightness override\<close>

lemma render_keeps_notification:
  "mNotificationState (setSpeakerBatteryLightLocked s) = mNotificationState s"
  by (subst render_frame) simp

lemma unat_top_byte: "unat (drop_bit 24 ((c :: 32 word) AND 0xff000000)) = unat c div 16777216"
proof -
  have "drop_bit 24 (c AND 0xff000000) = drop_bit 24 c AND 0xff"
    by simp
  then have "unat (drop_bit 24 (c AND 0xff000000)) = unat c div 2 ^ 24 mod 256"
    by (simp only: unat_and_ff unat_drop)
  moreover have "unat c < 2 ^ 32"
    using unsigned_less [of c] by simp
  ultimately show ?thesis
    by simp
qed

lemma unat_scaled:
  fixes x y :: "32 word"
  assumes "unat x < 256" "unat y < 256"
  shows "unat (x * y div 0xff) = unat x * unat y div 255"
proof -
  have "unat x * unat y < 256 * 256"
    using assms by (intro mult_strict_mono) simp_all
  then have "unat x * unat y < 2 ^ LENGTH(32)"
    by simp
  then have "unat (x * y) = unat x * unat y"
    by (simp only: unat_mult_lem [THEN iffD1])
  then show ?thesis
    by (simp add: unat_div)
qed

lemma unat_packed:
  fixes a b c :: "32 word"
  assumes "unat a < 256" "unat b < 256" "unat c < 256"
  shows "unat (push_bit 16 a + push_bit 8 b + c) = 65536 * unat a + 256 * unat b + unat c"
proof -
  have "65536 * unat a + 256 * unat b + unat c < 2 ^ 32"
    using assms by simp
  then show ?thesis
    by (simp add: push_bit_eq_mult unat_word_ariths mod_add_eq mod_mult_left_eq mod_mult_right_eq)
qed

lemma packed_bytes:
  fixes a b c :: nat
  assumes "a < 256" "b < 256" "c < 256"
  shows "(65536 * a + 256 * b + c) div 65536 mod 256 = a"
    and "(65536 * a + 256 * b + c) div 256 mod 256 = b"
    and "(65536 * a + 256 * b + c) mod 256 = c"
    and "(65536 * a + 256 * b + c) div 16777216 = 0"
proof -
  have hi: "(65536 * a + (256 * b + c)) div 65536 = a"
    using assms by simp
  then show "(65536 * a + 256 * b + c) div 65536 mod 256 = a"
    using assms by (simp add: add.assoc)
  have "65536 * a + 256 * b + c = 256 * (256 * a + b) + c"
    by simp
  then have mid: "(65536 * a + 256 * b + c) div 256 = 256 * a + b"
    using assms by simp
  show "(65536 * a + 256 * b + c) div 256 mod 256 = b"
    unfolding mid using assms by simp
  have "(65536 * a + 256 * b + c) mod 256 = (c + 256 * (256 * a + b)) mod 256"
    by (simp add: algebra_simps)
  also have "\<dots> = c mod 256"
    by (rule mod_mult_self2)
  also have "\<dots> = c"
    using assms by simp
  finally show "(65536 * a + 256 * b + c) mod 256 = c" .
  show "(65536 * a + 256 * b + c) div 16777216 = 0"
    using assms by simp
qed


lemma unat_channel_scaled:
  fixes x y :: "32 word"
  assumes "unat x < 256" "unat y < 255"
  shows "unat (if x > 0 then x * y div 0xff else x) = unat x * unat y div 255"
    and "unat (if x > 0 then x * y div 0xff else x) < 256"
proof -
  show eq: "unat (if x > 0 then x * y div 0xff else x) = unat x * unat y div 255"
  proof (cases "x > 0")
    case True
    then show ?thesis
      using assms by (simp add: unat_scaled)
  next
    case False
    then have "x = 0"
      by (simp add: word_gt_0)
    then show ?thesis
      by simp
  qed
  have "unat x * unat y \<le> unat x * 255"
    using assms by (intro mult_le_mono2) simp
  then have "unat x * unat y div 255 \<le> unat x * 255 div 255"
    by (rule div_le_mono)
  then show "unat (if x > 0 then x * y div 0xff else x) < 256"
    using assms eq by simp
qed

text \<open>
  C4. For every NOTIFICATIONS request, with \<open>b\<close> the top byte of the colour: when
  \<open>0 < b < 255\<close> the stored state is the request with its colour replaced, each of the
  three colour bytes of the stored colour being \<open>channel * b div 255\<close> (a zero channel
  stays zero), computed without wrap-around; when \<open>b\<close> is 0 or 255 the request is
  stored as it is. The witness stores red byte 128 for colour 0x80FF0000.
\<close>

theorem notification_brightness_override:
  "(0 < unat (color st) div 16777216 \<and> unat (color st) div 16777216 < 255 \<longrightarrow>
      unat (color (mNotificationState (setNotificationLight st s))) div 65536 mod 256
        = (unat (color st) div 65536 mod 256) * (unat (color st) div 16777216) div 255
      \<and> unat (color (mNotificationState (setNotificationLight st s))) div 256 mod 256
        = (unat (color st) div 256 mod 256) * (unat (color st) div 16777216) div 255
      \<and> unat (color (mNotificationState (setNotificationLight st s))) mod 256
        = (unat (color st) mod 256) * (unat (color st) div 16777216) div 255
      \<and> mNotificationState (setNotificationLight st s)
        = st\<lparr>color := color (mNotificationState (setNotificationLight st s))\<rparr>)
   \<and> (unat (color st) div 16777216 = 0 \<or> unat (color st) div 16777216 = 255 \<longrightarrow>
      mNotificationState (setNotificationLight st s) = st)"
proof -
  define n where "n = unat (color st)"
  define b where "b = drop_bit 24 (color st AND 0xff000000)"
  define R where "R = drop_bit 16 (color st AND 0x00ffffff) AND 0xff"
  define G where "G = drop_bit 8 (color st AND 0x00ffffff) AND 0xff"
  define B where "B = (color st AND 0x00ffffff) AND 0xff"
  define R' where "R' = (if R > 0 then R * b div 0xff else R)"
  define G' where "G' = (if G > 0 then G * b div 0xff else G)"
  define B' where "B' = (if B > 0 then B * b div 0xff else B)"
  have stored: "mNotificationState (setNotificationLight st s) =
      (if b > 0 \<and> b < 255 then st\<lparr>color := push_bit 16 R' + push_bit 8 G' + B'\<rparr> else st)"
    unfolding setNotificationLight_def Let_def render_keeps_notification
      b_def R_def G_def B_def R'_def G'_def B'_def
    by simp
  have ub: "unat b = n div 16777216"
    unfolding b_def n_def by (rule unat_top_byte)
  have r: "unat R = n div 65536 mod 256"
    unfolding R_def unat_and_ff unat_drop unat_and_ffffff n_def by (simp add: mod_div_bytes)
  have g: "unat G = n div 256 mod 256"
    unfolding G_def unat_and_ff unat_drop unat_and_ffffff n_def by (simp add: mod_div_bytes)
  have bl: "unat B = n mod 256"
    unfolding B_def unat_and_ff unat_drop unat_and_ffffff n_def by (simp add: mod_div_bytes)
  have range: "(b > 0 \<and> b < 255) = (0 < n div 16777216 \<and> n div 16777216 < 255)"
    by (simp add: word_less_nat_alt ub)
  have scaled: "0 < n div 16777216 \<and> n div 16777216 < 255 \<longrightarrow>
      unat (color (mNotificationState (setNotificationLight st s))) div 65536 mod 256
        = (n div 65536 mod 256) * (n div 16777216) div 255
      \<and> unat (color (mNotificationState (setNotificationLight st s))) div 256 mod 256
        = (n div 256 mod 256) * (n div 16777216) div 255
      \<and> unat (color (mNotificationState (setNotificationLight st s))) mod 256
        = (n mod 256) * (n div 16777216) div 255
      \<and> mNotificationState (setNotificationLight st s)
        = st\<lparr>color := color (mNotificationState (setNotificationLight st s))\<rparr>"
  proof (intro impI)
    assume inside: "0 < n div 16777216 \<and> n div 16777216 < 255"
    then have lt: "unat b < 255"
      by (simp add: ub)
    have Rlt: "unat R < 256" and Glt: "unat G < 256" and Blt: "unat B < 256"
      by (simp_all add: r g bl)
    have r': "unat R' = unat R * unat b div 255" "unat R' < 256"
      unfolding R'_def by (rule unat_channel_scaled [OF Rlt lt])+
    have g': "unat G' = unat G * unat b div 255" "unat G' < 256"
      unfolding G'_def by (rule unat_channel_scaled [OF Glt lt])+
    have b': "unat B' = unat B * unat b div 255" "unat B' < 256"
      unfolding B'_def by (rule unat_channel_scaled [OF Blt lt])+
    have st': "mNotificationState (setNotificationLight st s) =
        st\<lparr>color := push_bit 16 R' + push_bit 8 G' + B'\<rparr>"
      using inside stored range by simp
    have "color (mNotificationState (setNotificationLight st s)) =
        push_bit 16 R' + push_bit 8 G' + B'"
      unfolding st' by simp
    then have c': "unat (color (mNotificationState (setNotificationLight st s))) =
        65536 * unat R' + 256 * unat G' + unat B'"
      by (simp only: unat_packed [OF r'(2) g'(2) b'(2)])
    have "unat (color (mNotificationState (setNotificationLight st s))) div 65536 mod 256 = unat R'"
      unfolding c' by (rule packed_bytes(1) [OF r'(2) g'(2) b'(2)])
    also have "\<dots> = unat R * unat b div 255"
      by (rule r'(1))
    also have "\<dots> = (n div 65536 mod 256) * (n div 16777216) div 255"
      unfolding r ub ..
    finally have 1: "unat (color (mNotificationState (setNotificationLight st s))) div 65536 mod 256
        = (n div 65536 mod 256) * (n div 16777216) div 255" .
    have "unat (color (mNotificationState (setNotificationLight st s))) div 256 mod 256 = unat G'"
      unfolding c' by (rule packed_bytes(2) [OF r'(2) g'(2) b'(2)])
    also have "\<dots> = unat G * unat b div 255"
      by (rule g'(1))
    also have "\<dots> = (n div 256 mod 256) * (n div 16777216) div 255"
      unfolding g ub ..
    finally have 2: "unat (color (mNotificationState (setNotificationLight st s))) div 256 mod 256
        = (n div 256 mod 256) * (n div 16777216) div 255" .
    have "unat (color (mNotificationState (setNotificationLight st s))) mod 256 = unat B'"
      unfolding c' by (rule packed_bytes(3) [OF r'(2) g'(2) b'(2)])
    also have "\<dots> = unat B * unat b div 255"
      by (rule b'(1))
    also have "\<dots> = (n mod 256) * (n div 16777216) div 255"
      unfolding bl ub ..
    finally have 3: "unat (color (mNotificationState (setNotificationLight st s))) mod 256
        = (n mod 256) * (n div 16777216) div 255" .
    have 4: "mNotificationState (setNotificationLight st s)
        = st\<lparr>color := color (mNotificationState (setNotificationLight st s))\<rparr>"
      unfolding st' by simp
    show "unat (color (mNotificationState (setNotificationLight st s))) div 65536 mod 256
        = (n div 65536 mod 256) * (n div 16777216) div 255
      \<and> unat (color (mNotificationState (setNotificationLight st s))) div 256 mod 256
        = (n div 256 mod 256) * (n div 16777216) div 255
      \<and> unat (color (mNotificationState (setNotificationLight st s))) mod 256
        = (n mod 256) * (n div 16777216) div 255
      \<and> mNotificationState (setNotificationLight st s)
        = st\<lparr>color := color (mNotificationState (setNotificationLight st s))\<rparr>"
      by (intro conjI) (fact 1 2 3 4)+
  qed
  have plain: "n div 16777216 = 0 \<or> n div 16777216 = 255 \<longrightarrow>
      mNotificationState (setNotificationLight st s) = st"
  proof (intro impI)
    assume "n div 16777216 = 0 \<or> n div 16777216 = 255"
    then have "(b > 0 \<and> b < 255) = False"
      unfolding range by auto
    then show "mNotificationState (setNotificationLight st s) = st"
      unfolding stored by (simp only: if_False)
  qed
  show ?thesis
    using scaled plain unfolding n_def by (rule conjI)
qed


theorem notification_brightness_override_witness:
  "0 < unat (color (ex_steady 0x80FF0000)) div 16777216
   \<and> unat (color (ex_steady 0x80FF0000)) div 16777216 < 255
   \<and> unat (color (mNotificationState (setNotificationLight (ex_steady 0x80FF0000)
         (ex_light (ex_steady 0) (ex_steady 0) (ex_steady 0))))) div 65536 mod 256 = 128
   \<and> unat (color (ex_steady 0xFF123456)) div 16777216 = 255
   \<and> mNotificationState (setNotificationLight (ex_steady 0xFF123456)
         (ex_light (ex_steady 0) (ex_steady 0) (ex_steady 0))) = ex_steady 0xFF123456
   \<and> unat (color (ex_steady 0x00123456)) div 16777216 = 0
   \<and> mNotificationState (setNotificationLight (ex_steady 0x00123456)
         (ex_light (ex_steady 0) (ex_steady 0) (ex_steady 0))) = ex_steady 0x00123456"
  using notification_brightness_override [of "ex_steady 0x80FF0000"
      "ex_light (ex_steady 0) (ex_steady 0) (ex_steady 0)"]
    notification_brightness_override [of "ex_steady 0xFF123456"
      "ex_light (ex_steady 0) (ex_steady 0) (ex_steady 0)"]
    notification_brightness_override [of "ex_steady 0x00123456"
      "ex_light (ex_steady 0) (ex_steady 0) (ex_steady 0)"]
  by simp

section \<open>No source lit\<close>

lemma notification_dark:
  assumes "color st AND 0x00ffffff = 0"
  shows "\<exists>st'. setNotificationLight st s =
           setSpeakerBatteryLightLocked (s\<lparr>mNotificationState := st'\<rparr>) \<and> \<not> isLit st'"
proof -
  have z: "drop_bit 16 (color st AND 0x00ffffff) AND 0xff = 0"
    "drop_bit 8 (color st AND 0x00ffffff) AND 0xff = 0"
    "(color st AND 0x00ffffff) AND 0xff = 0"
    by (simp_all only: assms) simp_all
  show ?thesis
  proof (cases "drop_bit 24 (color st AND 0xff000000) > 0 \<and> drop_bit 24 (color st AND 0xff000000) < 255")
    case True
    have "setNotificationLight st s = setSpeakerBatteryLightLocked (s\<lparr>mNotificationState := st\<lparr>color := 0\<rparr>\<rparr>)"
      unfolding setNotificationLight_def Let_def z using True by simp
    then show ?thesis
      by (intro exI [of _ "st\<lparr>color := 0\<rparr>"]) (simp add: isLit_def)
  next
    case False
    have "setNotificationLight st s = setSpeakerBatteryLightLocked (s\<lparr>mNotificationState := st\<rparr>)"
      unfolding setNotificationLight_def Let_def using False by auto
    then show ?thesis
      using assms by (intro exI [of _ st]) (simp add: isLit_def)
  qed
qed

text \<open>
  C7. For every shared-LED render in which the colour of none of the three stored
  sources has non-zero RGB after masking, the render writes 0 to the brightness sink
  and 0 to the blink-enable sink of all three channels, and nothing else. This is so
  for the render by itself and for the render that a NOTIFICATIONS, ATTENTION or
  BATTERY request with zero RGB performs while the other two sources are dark; the
  witness turns a lit battery source off.
\<close>

theorem shared_led_off:
  "(color (mNotificationState s) AND 0x00ffffff = 0
      \<and> color (mAttentionState s) AND 0x00ffffff = 0
      \<and> color (mBatteryState s) AND 0x00ffffff = 0 \<longrightarrow>
      written s (setSpeakerBatteryLightLocked s) =
        [(mRedLed, Num 0), (mGreenLed, Num 0), (mBlueLed, Num 0),
         (mRedBlink, Num 0), (mGreenBlink, Num 0), (mBlueBlink, Num 0)])
   \<and> (color st AND 0x00ffffff = 0
      \<and> color (mAttentionState s) AND 0x00ffffff = 0
      \<and> color (mBatteryState s) AND 0x00ffffff = 0 \<longrightarrow>
      written s (setNotificationLight st s) =
        [(mRedLed, Num 0), (mGreenLed, Num 0), (mBlueLed, Num 0),
         (mRedBlink, Num 0), (mGreenBlink, Num 0), (mBlueBlink, Num 0)])
   \<and> (color st AND 0x00ffffff = 0
      \<and> color (mNotificationState s) AND 0x00ffffff = 0
      \<and> color (mBatteryState s) AND 0x00ffffff = 0 \<longrightarrow>
      written s (setAttentionLight st s) =
        [(mRedLed, Num 0), (mGreenLed, Num 0), (mBlueLed, Num 0),
         (mRedBlink, Num 0), (mGreenBlink, Num 0), (mBlueBlink, Num 0)])
   \<and> (color st AND 0x00ffffff = 0
      \<and> color (mNotificationState s) AND 0x00ffffff = 0
      \<and> color (mAttentionState s) AND 0x00ffffff = 0 \<longrightarrow>
      written s (setBatteryLight st s) =
        [(mRedLed, Num 0), (mGreenLed, Num 0), (mBlueLed, Num 0),
         (mRedBlink, Num 0), (mGreenBlink, Num 0), (mBlueBlink, Num 0)])"
proof (intro conjI impI)
  assume "color (mNotificationState s) AND 0x00ffffff = 0
      \<and> color (mAttentionState s) AND 0x00ffffff = 0
      \<and> color (mBatteryState s) AND 0x00ffffff = 0"
  then show "written s (setSpeakerBatteryLightLocked s) =
        [(mRedLed, Num 0), (mGreenLed, Num 0), (mBlueLed, Num 0),
         (mRedBlink, Num 0), (mGreenBlink, Num 0), (mBlueBlink, Num 0)]"
    by (simp add: written_def render_off_out isLit_def)
next
  assume "color st AND 0x00ffffff = 0
      \<and> color (mNotificationState s) AND 0x00ffffff = 0
      \<and> color (mBatteryState s) AND 0x00ffffff = 0"
  then show "written s (setAttentionLight st s) =
        [(mRedLed, Num 0), (mGreenLed, Num 0), (mBlueLed, Num 0),
         (mRedBlink, Num 0), (mGreenBlink, Num 0), (mBlueBlink, Num 0)]"
    by (simp add: written_def setAttentionLight_def render_off_out isLit_def)
next
  assume "color st AND 0x00ffffff = 0
      \<and> color (mNotificationState s) AND 0x00ffffff = 0
      \<and> color (mAttentionState s) AND 0x00ffffff = 0"
  then show "written s (setBatteryLight st s) =
        [(mRedLed, Num 0), (mGreenLed, Num 0), (mBlueLed, Num 0),
         (mRedBlink, Num 0), (mGreenBlink, Num 0), (mBlueBlink, Num 0)]"
    by (simp add: written_def setBatteryLight_def render_off_out isLit_def)
next
  assume h: "color st AND 0x00ffffff = 0
      \<and> color (mAttentionState s) AND 0x00ffffff = 0
      \<and> color (mBatteryState s) AND 0x00ffffff = 0"
  obtain st' where st': "setNotificationLight st s =
      setSpeakerBatteryLightLocked (s\<lparr>mNotificationState := st'\<rparr>)" "\<not> isLit st'"
    using notification_dark [of st s] h by blast
  show "written s (setNotificationLight st s) =
        [(mRedLed, Num 0), (mGreenLed, Num 0), (mBlueLed, Num 0),
         (mRedBlink, Num 0), (mGreenBlink, Num 0), (mBlueBlink, Num 0)]"
    using h st' by (simp add: written_def render_off_out isLit_def)
qed

theorem shared_led_off_witness:
  "color (mNotificationState (ex_light (ex_steady 0) (ex_steady 0xff000000) (ex_steady 0)))
       AND 0x00ffffff = 0
   \<and> color (mAttentionState (ex_light (ex_steady 0) (ex_steady 0xff000000) (ex_steady 0)))
       AND 0x00ffffff = 0
   \<and> color (mBatteryState (ex_light (ex_steady 0) (ex_steady 0xff000000) (ex_steady 0)))
       AND 0x00ffffff = 0
   \<and> written (ex_light (ex_steady 0) (ex_steady 0xff000000) (ex_steady 0))
        (setSpeakerBatteryLightLocked (ex_light (ex_steady 0) (ex_steady 0xff000000) (ex_steady 0)))
       = [(mRedLed, Num 0), (mGreenLed, Num 0), (mBlueLed, Num 0),
          (mRedBlink, Num 0), (mGreenBlink, Num 0), (mBlueBlink, Num 0)]
   \<and> isLit (mBatteryState (ex_light (ex_steady 0) (ex_steady 0x00ff00) (ex_steady 0)))
   \<and> color (ex_steady 0) AND 0x00ffffff = 0
   \<and> written (ex_light (ex_steady 0) (ex_steady 0x00ff00) (ex_steady 0))
        (setBatteryLight (ex_steady 0) (ex_light (ex_steady 0) (ex_steady 0x00ff00) (ex_steady 0)))
       = [(mRedLed, Num 0), (mGreenLed, Num 0), (mBlueLed, Num 0),
          (mRedBlink, Num 0), (mGreenBlink, Num 0), (mBlueBlink, Num 0)]"
  using shared_led_off [of "ex_light (ex_steady 0) (ex_steady 0xff000000) (ex_steady 0)" "ex_steady 0"]
    shared_led_off [of "ex_light (ex_steady 0) (ex_steady 0x00ff00) (ex_steady 0)" "ex_steady 0"]
  by (simp add: Light_constructor_def isLit_def)

section \<open>Dispatch\<close>

text \<open>
  C8. For every type outside ATTENTION, BACKLIGHT, BATTERY, BUTTONS, NOTIFICATIONS and
  every state argument, \<open>setLight\<close> returns LIGHT_NOT_SUPPORTED and the whole object
  (stored source states, slider flag, everything written) is unchanged; for every
  type among the five it returns SUCCESS.
\<close>

theorem setLight_supported_types:
  "(type \<notin> {ATTENTION, BACKLIGHT, BATTERY, BUTTONS, NOTIFICATIONS} \<longrightarrow>
      setLight type state s = (LIGHT_NOT_SUPPORTED, s))
   \<and> (type \<in> {ATTENTION, BACKLIGHT, BATTERY, BUTTONS, NOTIFICATIONS} \<longrightarrow>
      fst (setLight type state s) = SUCCESS)"
  by (cases type) (simp_all add: setLight_def mLights_def)

theorem setLight_supported_types_witness:
  "KEYBOARD \<notin> {ATTENTION, BACKLIGHT, BATTERY, BUTTONS, NOTIFICATIONS}
   \<and> setLight KEYBOARD (ex_steady 0xffffffff) (ex_light (ex_steady 0) (ex_steady 0) (ex_steady 0))
       = (LIGHT_NOT_SUPPORTED, ex_light (ex_steady 0) (ex_steady 0) (ex_steady 0))
   \<and> BUTTONS \<in> {ATTENTION, BACKLIGHT, BATTERY, BUTTONS, NOTIFICATIONS}
   \<and> fst (setLight BUTTONS (ex_steady 0xffffffff)
              (ex_light (ex_steady 0) (ex_steady 0) (ex_steady 0))) = SUCCESS"
  using setLight_supported_types [of KEYBOARD "ex_steady 0xffffffff"
      "ex_light (ex_steady 0) (ex_steady 0) (ex_steady 0)"]
    setLight_supported_types [of BUTTONS "ex_steady 0xffffffff"
      "ex_light (ex_steady 0) (ex_steady 0) (ex_steady 0)"]
  by simp

section \<open>Backlights\<close>

lemma keyboard_render:
  "setKeyboardBacklightLocked s =
     s\<lparr>mKeyboardBacklight_second := (if mSliderOpen s \<and> mLcdBacklightOn s then 255 else 0),
       out := out s @ [(mKeyboardBacklight_first,
                 Num (if mSliderOpen s \<and> mLcdBacklightOn s then 255 else 0))]\<rparr>"
  by (simp add: setKeyboardBacklightLocked_def Let_def put_def DEFAULT_MAX_BRIGHTNESS_def)

text \<open>
  C9. For every boolean value the slider callback sets the slider-open flag, recomputes
  the keyboard backlight value and writes it to the keyboard backlight sink, and does
  nothing else: the three stored source states and the LCD flag are unchanged and the
  one write goes to the keyboard sink, so no sink of the RGB LED is written.
\<close>

theorem onSliderChanged_frame:
  "onSliderChanged open s =
     s\<lparr>mSliderOpen := open,
       mKeyboardBacklight_second := (if open \<and> mLcdBacklightOn s then 255 else 0),
       out := out s @ [(mKeyboardBacklight_first,
                 Num (if open \<and> mLcdBacklightOn s then 255 else 0))]\<rparr>
   \<and> mSliderOpen (onSliderChanged open s) = open
   \<and> mNotificationState (onSliderChanged open s) = mNotificationState s
   \<and> mAttentionState (onSliderChanged open s) = mAttentionState s
   \<and> mBatteryState (onSliderChanged open s) = mBatteryState s
   \<and> mLcdBacklightOn (onSliderChanged open s) = mLcdBacklightOn s
   \<and> written s (onSliderChanged open s) =
       [(mKeyboardBacklight_first, Num (if open \<and> mLcdBacklightOn s then 255 else 0))]"
  by (simp add: onSliderChanged_def keyboard_render written_def)

lemma lcd_render:
  "setLcdBacklight state s =
     s\<lparr>mLcdBacklightOn := (color state \<noteq> 0),
       mKeyboardBacklight_second := (if mSliderOpen s \<and> color state \<noteq> 0 then 255 else 0),
       out := out s @
         [(mLcdBacklight_first,
             Num (uint (if mLcdBacklight_second s \<noteq> 255
                        then rgbToBrightness state * mLcdBacklight_second s div 255
                        else rgbToBrightness state))),
          (mKeyboardBacklight_first,
             Num (if mSliderOpen s \<and> color state \<noteq> 0 then 255 else 0))]\<rparr>"
  by (simp add: setLcdBacklight_def keyboard_render Let_def put_def DEFAULT_MAX_BRIGHTNESS_def)

lemma rgbToBrightness_dark: "color st AND 0x00ffffff = 0 \<Longrightarrow> rgbToBrightness st = 0"
  by (simp add: rgbToBrightness_def Let_def)

text \<open>
  C10. For every BACKLIGHT request whose colour has zero RGB and a non-zero alpha byte,
  the LCD brightness written is 0 while the LCD-on flag becomes true, so the keyboard
  backlight is set to 255 when the slider is open (and to 0 when it is closed).
\<close>

theorem lcd_flag_counts_alpha:
  "color st AND 0x00ffffff = 0 \<and> color st \<noteq> 0 \<longrightarrow>
     fst (setLight BACKLIGHT st s) = SUCCESS
     \<and> mLcdBacklightOn (snd (setLight BACKLIGHT st s))
     \<and> written s (snd (setLight BACKLIGHT st s)) =
         [(mLcdBacklight_first, Num 0),
          (mKeyboardBacklight_first, Num (if mSliderOpen s then 255 else 0))]
     \<and> mKeyboardBacklight_second (snd (setLight BACKLIGHT st s)) =
         (if mSliderOpen s then 255 else 0)"
  by (simp add: setLight_def mLights_def lcd_render written_def rgbToBrightness_dark)

theorem lcd_flag_counts_alpha_witness:
  "color (ex_steady 0xFF000000) AND 0x00ffffff = 0
   \<and> color (ex_steady 0xFF000000) \<noteq> 0
   \<and> mSliderOpen (onSliderChanged True (ex_light (ex_steady 0) (ex_steady 0) (ex_steady 0)))
   \<and> mLcdBacklightOn (snd (setLight BACKLIGHT (ex_steady 0xFF000000)
        (onSliderChanged True (ex_light (ex_steady 0) (ex_steady 0) (ex_steady 0)))))
   \<and> written (onSliderChanged True (ex_light (ex_steady 0) (ex_steady 0) (ex_steady 0)))
        (snd (setLight BACKLIGHT (ex_steady 0xFF000000)
           (onSliderChanged True (ex_light (ex_steady 0) (ex_steady 0) (ex_steady 0))))) =
       [(mLcdBacklight_first, Num 0), (mKeyboardBacklight_first, Num 255)]"
proof -
  have h: "color (ex_steady 0xFF000000) AND 0x00ffffff = 0 \<and> color (ex_steady 0xFF000000) \<noteq> 0"
    by simp
  have o: "mSliderOpen (onSliderChanged True (ex_light (ex_steady 0) (ex_steady 0) (ex_steady 0)))"
    by (simp add: onSliderChanged_def keyboard_render)
  show ?thesis
    using h o lcd_flag_counts_alpha [of "ex_steady 0xFF000000"
        "onSliderChanged True (ex_light (ex_steady 0) (ex_steady 0) (ex_steady 0))"]
    by simp
qed


section \<open>Runs\<close>

lemma buttons_loop_frame:
  "setButtonsBacklight_loop brightness buttons s =
     s\<lparr>out := out (setButtonsBacklight_loop brightness buttons s)\<rparr>"
proof (induction buttons arbitrary: s)
  case Nil
  show ?case by simp
next
  case (Cons button rest)
  let ?s1 = "put (mButtonBacklight button) (Num (uint brightness)) s"
  have "setButtonsBacklight_loop brightness (button # rest) s =
      setButtonsBacklight_loop brightness rest ?s1"
    by simp
  also have "\<dots> = ?s1\<lparr>out := out (setButtonsBacklight_loop brightness rest ?s1)\<rparr>"
    by (rule Cons.IH)
  also have "\<dots> = s\<lparr>out := out (setButtonsBacklight_loop brightness (button # rest) s)\<rparr>"
    by (simp add: put_def)
  finally show ?case .
qed

lemma buttons_flags:
  "mSliderOpen (setButtonsBacklight state s) = mSliderOpen s"
  "mLcdBacklightOn (setButtonsBacklight state s) = mLcdBacklightOn s"
  unfolding setButtonsBacklight_def Let_def
  by (subst buttons_loop_frame, simp)+

lemma render_flags:
  "mSliderOpen (setSpeakerBatteryLightLocked s) = mSliderOpen s"
  "mLcdBacklightOn (setSpeakerBatteryLightLocked s) = mLcdBacklightOn s"
  by (subst render_frame, simp)+

lemma led_setter_flags:
  "mSliderOpen (setAttentionLight state s) = mSliderOpen s"
  "mLcdBacklightOn (setAttentionLight state s) = mLcdBacklightOn s"
  "mSliderOpen (setBatteryLight state s) = mSliderOpen s"
  "mLcdBacklightOn (setBatteryLight state s) = mLcdBacklightOn s"
  "mSliderOpen (setNotificationLight state s) = mSliderOpen s"
  "mLcdBacklightOn (setNotificationLight state s) = mLcdBacklightOn s"
  by (simp_all add: setAttentionLight_def setBatteryLight_def setNotificationLight_def
      Let_def render_flags)

lemma step_slider:
  "mSliderOpen (step s e) =
     (case e of
        Input ev \<Rightarrow> if ev_type ev = EV_SW \<and> ev_code ev = SW_LID then ev_value ev = 0
                    else mSliderOpen s
      | Call t st \<Rightarrow> mSliderOpen s)"
proof (cases e)
  case (Call t st)
  then show ?thesis
    by (cases t)
       (simp_all add: setLight_def mLights_def led_setter_flags buttons_flags lcd_render)
next
  case (Input ev)
  then show ?thesis
    by (simp add: sliderMonitorThread_event_def onSliderChanged_def keyboard_render Let_def)
qed

lemma step_lcd_on:
  "mLcdBacklightOn (step s e) =
     (case e of
        Call t st \<Rightarrow> if t = BACKLIGHT then color st \<noteq> 0 else mLcdBacklightOn s
      | Input ev \<Rightarrow> mLcdBacklightOn s)"
proof (cases e)
  case (Call t st)
  then show ?thesis
    by (cases t)
       (simp_all add: setLight_def mLights_def led_setter_flags buttons_flags lcd_render)
next
  case (Input ev)
  then show ?thesis
    by (simp add: sliderMonitorThread_event_def onSliderChanged_def keyboard_render Let_def)
qed

lemma run_slider: "mSliderOpen (run s evs) = spec_slider_open (mSliderOpen s) evs"
proof (induction evs arbitrary: s)
  case Nil
  show ?case by (simp add: run_def)
next
  case (Cons e evs)
  have "mSliderOpen (run s (e # evs)) = spec_slider_open (mSliderOpen (step s e)) evs"
    by (simp add: run_def Cons.IH [unfolded run_def] del: step.simps)
  then show ?case
    unfolding step_slider by (cases e) simp_all
qed

lemma run_lcd_on:
  "mLcdBacklightOn s = (case c of None \<Rightarrow> False | Some x \<Rightarrow> x \<noteq> 0) \<Longrightarrow>
   mLcdBacklightOn (run s evs) =
     (case spec_last_lcd_color c evs of None \<Rightarrow> False | Some x \<Rightarrow> x \<noteq> 0)"
proof (induction evs arbitrary: s c)
  case Nil
  then show ?case by (simp add: run_def)
next
  case (Cons e evs)
  have unfold: "run s (e # evs) = run (step s e) evs"
    by (simp add: run_def)
  show ?case
  proof (cases e)
    case (Call t st)
    have "mLcdBacklightOn (step s e) =
        (case (if t = BACKLIGHT then Some (color st) else c) of
           None \<Rightarrow> False | Some x \<Rightarrow> x \<noteq> 0)"
      unfolding step_lcd_on using Cons.prems Call by simp
    then have "mLcdBacklightOn (run (step s e) evs) =
        (case spec_last_lcd_color (if t = BACKLIGHT then Some (color st) else c) evs of
           None \<Rightarrow> False | Some x \<Rightarrow> x \<noteq> 0)"
      by (rule Cons.IH)
    then show ?thesis
      unfolding unfold using Call by simp
  next
    case (Input ev)
    have "mLcdBacklightOn (step s e) = (case c of None \<Rightarrow> False | Some x \<Rightarrow> x \<noteq> 0)"
      unfolding step_lcd_on using Cons.prems Input by simp
    then have "mLcdBacklightOn (run (step s e) evs) =
        (case spec_last_lcd_color c evs of None \<Rightarrow> False | Some x \<Rightarrow> x \<noteq> 0)"
      by (rule Cons.IH)
    then show ?thesis
      unfolding unfold using Input by simp
  qed
qed

lemma run_snoc: "run s (evs @ [e]) = step (run s evs) e"
  by (simp add: run_def)

lemma step_writes_keyboard:
  assumes "is_backlight_call e \<or> is_slider_event e"
  shows "written s (step s e) \<noteq> [] \<and>
     last (written s (step s e)) =
       (mKeyboardBacklight_first,
        Num (if mSliderOpen (step s e) \<and> mLcdBacklightOn (step s e) then 255 else 0))"
proof (cases e)
  case (Call t st)
  then have "t = BACKLIGHT"
    using assms by (simp add: is_backlight_call_def is_slider_event_def)
  then show ?thesis
    using Call by (simp add: setLight_def mLights_def lcd_render written_def)
next
  case (Input ev)
  then have "ev_type ev = EV_SW \<and> ev_code ev = SW_LID"
    using assms by (simp add: is_backlight_call_def is_slider_event_def)
  then show ?thesis
    using Input
    by (simp add: sliderMonitorThread_event_def onSliderChanged_def keyboard_render written_def
        Let_def)
qed

text \<open>
  C6. In every run from the constructed object, after a BACKLIGHT request or a lid
  event the keyboard backlight value just written is 255 if the slider is open (by the
  last lid event) and the colour of the last BACKLIGHT request is not zero, and 0
  otherwise. In particular a lid event while the LCD is off (no BACKLIGHT request yet,
  or the last one with colour zero) writes 0 to the keyboard sink and nothing else.
\<close>

theorem keyboard_backlight_rule:
  "(is_backlight_call e \<or> is_slider_event e \<longrightarrow>
      last (written
              (run (Light_constructor lcd_max kbd_max buttons attention battery notification) evs)
              (run (Light_constructor lcd_max kbd_max buttons attention battery notification)
                 (evs @ [e])))
      = (mKeyboardBacklight_first,
         Num (if spec_slider_open False (evs @ [e])
                 \<and> (case spec_last_lcd_color None (evs @ [e]) of
                       None \<Rightarrow> False | Some c \<Rightarrow> c \<noteq> 0)
              then 255 else 0)))
   \<and> (is_slider_event e
        \<and> (case spec_last_lcd_color None evs of None \<Rightarrow> True | Some c \<Rightarrow> c = 0) \<longrightarrow>
      written
        (run (Light_constructor lcd_max kbd_max buttons attention battery notification) evs)
        (run (Light_constructor lcd_max kbd_max buttons attention battery notification)
           (evs @ [e]))
      = [(mKeyboardBacklight_first, Num 0)])"
proof -
  let ?L = "Light_constructor lcd_max kbd_max buttons attention battery notification"
  have init: "mSliderOpen ?L = False"
    "mLcdBacklightOn ?L = (case None :: 32 word option of None \<Rightarrow> False | Some x \<Rightarrow> x \<noteq> 0)"
    by (simp_all add: Light_constructor_def)
  have slider: "mSliderOpen (run ?L xs) = spec_slider_open False xs" for xs
    using run_slider [of ?L xs] init(1) by simp
  have lcd: "mLcdBacklightOn (run ?L xs) =
      (case spec_last_lcd_color None xs of None \<Rightarrow> False | Some x \<Rightarrow> x \<noteq> 0)" for xs
    by (rule run_lcd_on [OF init(2)])
  have main: "is_backlight_call e \<or> is_slider_event e \<longrightarrow>
      last (written (run ?L evs) (run ?L (evs @ [e])))
      = (mKeyboardBacklight_first,
         Num (if spec_slider_open False (evs @ [e])
                 \<and> (case spec_last_lcd_color None (evs @ [e]) of
                       None \<Rightarrow> False | Some c \<Rightarrow> c \<noteq> 0)
              then 255 else 0))"
  proof
    assume "is_backlight_call e \<or> is_slider_event e"
    then have "last (written (run ?L evs) (step (run ?L evs) e)) =
       (mKeyboardBacklight_first,
        Num (if mSliderOpen (step (run ?L evs) e) \<and> mLcdBacklightOn (step (run ?L evs) e)
             then 255 else 0))"
      using step_writes_keyboard [of e "run ?L evs"] by blast
    then show "last (written (run ?L evs) (run ?L (evs @ [e])))
      = (mKeyboardBacklight_first,
         Num (if spec_slider_open False (evs @ [e])
                 \<and> (case spec_last_lcd_color None (evs @ [e]) of
                       None \<Rightarrow> False | Some c \<Rightarrow> c \<noteq> 0)
              then 255 else 0))"
      unfolding run_snoc [symmetric] slider lcd .
  qed
  have off: "is_slider_event e
        \<and> (case spec_last_lcd_color None evs of None \<Rightarrow> True | Some c \<Rightarrow> c = 0) \<longrightarrow>
      written (run ?L evs) (run ?L (evs @ [e])) = [(mKeyboardBacklight_first, Num 0)]"
  proof
    assume h: "is_slider_event e
        \<and> (case spec_last_lcd_color None evs of None \<Rightarrow> True | Some c \<Rightarrow> c = 0)"
    then obtain ev where ev: "e = Input ev" "ev_type ev = EV_SW \<and> ev_code ev = SW_LID"
      by (cases e) (simp_all add: is_slider_event_def)
    have "\<not> mLcdBacklightOn (run ?L evs)"
      using h unfolding lcd by (simp split: option.splits)
    then show "written (run ?L evs) (run ?L (evs @ [e])) = [(mKeyboardBacklight_first, Num 0)]"
      unfolding run_snoc using ev
      by (simp add: sliderMonitorThread_event_def onSliderChanged_def keyboard_render written_def
        Let_def)
  qed
  show ?thesis
    using main off by (rule conjI)
qed


theorem keyboard_backlight_rule_witness:
  "is_slider_event (Input (ex_lid 0))
   \<and> last (written
         (run (ex_light (ex_steady 0) (ex_steady 0) (ex_steady 0))
            [Call BACKLIGHT (ex_steady 0xffffffff)])
         (run (ex_light (ex_steady 0) (ex_steady 0) (ex_steady 0))
            ([Call BACKLIGHT (ex_steady 0xffffffff)] @ [Input (ex_lid 0)])))
       = (mKeyboardBacklight_first, Num 255)
   \<and> is_backlight_call (Call BACKLIGHT (ex_steady 0))
   \<and> last (written
         (run (ex_light (ex_steady 0) (ex_steady 0) (ex_steady 0))
            [Call BACKLIGHT (ex_steady 0xffffffff), Input (ex_lid 0)])
         (run (ex_light (ex_steady 0) (ex_steady 0) (ex_steady 0))
            ([Call BACKLIGHT (ex_steady 0xffffffff), Input (ex_lid 0)]
             @ [Call BACKLIGHT (ex_steady 0)])))
       = (mKeyboardBacklight_first, Num 0)
   \<and> written
         (run (ex_light (ex_steady 0) (ex_steady 0) (ex_steady 0))
            [Call BACKLIGHT (ex_steady 0)])
         (run (ex_light (ex_steady 0) (ex_steady 0) (ex_steady 0))
            ([Call BACKLIGHT (ex_steady 0)] @ [Input (ex_lid 0)]))
       = [(mKeyboardBacklight_first, Num 0)]"
proof -
  have slider: "is_slider_event (Input (ex_lid 0))"
    by (simp add: is_slider_event_def EV_SW_def SW_LID_def)
  have call: "is_backlight_call (Call BACKLIGHT (ex_steady 0))"
    by (simp add: is_backlight_call_def)
  have 1: "last (written
         (run (ex_light (ex_steady 0) (ex_steady 0) (ex_steady 0))
            [Call BACKLIGHT (ex_steady 0xffffffff)])
         (run (ex_light (ex_steady 0) (ex_steady 0) (ex_steady 0))
            ([Call BACKLIGHT (ex_steady 0xffffffff)] @ [Input (ex_lid 0)])))
       = (mKeyboardBacklight_first, Num 255)"
    using slider
      keyboard_backlight_rule [of "Input (ex_lid 0)" 255 255 2 "ex_steady 0" "ex_steady 0"
        "ex_steady 0" "[Call BACKLIGHT (ex_steady 0xffffffff)]"]
    by (simp add: EV_SW_def SW_LID_def)
  have 2: "last (written
         (run (ex_light (ex_steady 0) (ex_steady 0) (ex_steady 0))
            [Call BACKLIGHT (ex_steady 0xffffffff), Input (ex_lid 0)])
         (run (ex_light (ex_steady 0) (ex_steady 0) (ex_steady 0))
            ([Call BACKLIGHT (ex_steady 0xffffffff), Input (ex_lid 0)]
             @ [Call BACKLIGHT (ex_steady 0)])))
       = (mKeyboardBacklight_first, Num 0)"
    using call
      keyboard_backlight_rule [of "Call BACKLIGHT (ex_steady 0)" 255 255 2 "ex_steady 0"
        "ex_steady 0" "ex_steady 0" "[Call BACKLIGHT (ex_steady 0xffffffff), Input (ex_lid 0)]"]
    by (simp add: EV_SW_def SW_LID_def)
  have 3: "written
         (run (ex_light (ex_steady 0) (ex_steady 0) (ex_steady 0))
            [Call BACKLIGHT (ex_steady 0)])
         (run (ex_light (ex_steady 0) (ex_steady 0) (ex_steady 0))
            ([Call BACKLIGHT (ex_steady 0)] @ [Input (ex_lid 0)]))
       = [(mKeyboardBacklight_first, Num 0)]"
    using slider
      keyboard_backlight_rule [of "Input (ex_lid 0)" 255 255 2 "ex_steady 0" "ex_steady 0"
        "ex_steady 0" "[Call BACKLIGHT (ex_steady 0)]"]
    by simp
  show ?thesis
    by (intro conjI) (fact slider call 1 2 3)+
qed

section \<open>Output modes of the shared LED\<close>

lemma spec_winner_lit: "spec_winner s = Some w \<Longrightarrow> color w AND 0x00ffffff \<noteq> 0"
  by (auto simp add: spec_winner_cases isLit_def split: if_splits)

text \<open>
  C2, as stated, fails: a render that switches from blinking to a non-zero steady colour
  does not zero the blink-enable flags. After a blinking red notification, a steady red
  notification makes the render write the three brightness values and nothing to any
  blink-enable sink.
\<close>

theorem blink_flags_not_cleared:
  "spec_mode (snd (setLight NOTIFICATIONS (ex_timed 0xff0000 1000 500)
       (ex_light (ex_steady 0) (ex_steady 0) (ex_steady 0)))) = Blinking
   \<and> spec_mode (snd (setLight NOTIFICATIONS (ex_steady 0xff0000)
         (snd (setLight NOTIFICATIONS (ex_timed 0xff0000 1000 500)
            (ex_light (ex_steady 0) (ex_steady 0) (ex_steady 0)))))) = SteadyColor
   \<and> written
        (snd (setLight NOTIFICATIONS (ex_timed 0xff0000 1000 500)
           (ex_light (ex_steady 0) (ex_steady 0) (ex_steady 0))))
        (snd (setLight NOTIFICATIONS (ex_steady 0xff0000)
           (snd (setLight NOTIFICATIONS (ex_timed 0xff0000 1000 500)
              (ex_light (ex_steady 0) (ex_steady 0) (ex_steady 0))))))
       = [(mRedLed, Num 255), (mGreenLed, Num 0), (mBlueLed, Num 0)]
   \<and> (mRedBlink, Num 0) \<notin> set (written
        (snd (setLight NOTIFICATIONS (ex_timed 0xff0000 1000 500)
           (ex_light (ex_steady 0) (ex_steady 0) (ex_steady 0))))
        (snd (setLight NOTIFICATIONS (ex_steady 0xff0000)
           (snd (setLight NOTIFICATIONS (ex_timed 0xff0000 1000 500)
              (ex_light (ex_steady 0) (ex_steady 0) (ex_steady 0)))))))"
proof -
  let ?L = "ex_light (ex_steady 0) (ex_steady 0) (ex_steady 0)"
  let ?s1 = "snd (setLight NOTIFICATIONS (ex_timed 0xff0000 1000 500) ?L)"
  let ?s2 = "snd (setLight NOTIFICATIONS (ex_steady 0xff0000) ?s1)"
  have s1: "?s1 = setSpeakerBatteryLightLocked
      (?L\<lparr>mNotificationState := ex_timed 0xff0000 1000 500\<rparr>)"
    by (simp add: setLight_def mLights_def setNotificationLight_def Let_def)
  have n1: "mNotificationState ?s1 = ex_timed 0xff0000 1000 500"
    "mAttentionState ?s1 = ex_steady 0" "mBatteryState ?s1 = ex_steady 0"
    unfolding s1 by (subst render_frame, simp add: Light_constructor_def)+
  have m1: "spec_mode ?s1 = Blinking"
    by (simp add: spec_mode_def spec_winner_def spec_blinks_def n1)
  have s2: "?s2 = setSpeakerBatteryLightLocked (?s1\<lparr>mNotificationState := ex_steady 0xff0000\<rparr>)"
    by (simp add: setLight_def mLights_def setNotificationLight_def Let_def)
  have n2: "mNotificationState ?s2 = ex_steady 0xff0000"
    "mAttentionState ?s2 = ex_steady 0" "mBatteryState ?s2 = ex_steady 0"
    unfolding s2 by (subst render_frame, simp add: n1)+
  have m2: "spec_mode ?s2 = SteadyColor"
    by (simp add: spec_mode_def spec_winner_def spec_blinks_def n2)
  have "out ?s2 = out ?s1 @ [(mRedLed, Num 255), (mGreenLed, Num 0), (mBlueLed, Num 0)]"
    unfolding s2
    by (simp add: setSpeakerBatteryLightLocked_def isLit_def speaker_steady_out)
  then have w: "written ?s1 ?s2 = [(mRedLed, Num 255), (mGreenLed, Num 0), (mBlueLed, Num 0)]"
    by (rule written_append)
  have nb: "(mRedBlink, Num 0) \<notin> set (written ?s1 ?s2)"
    unfolding w by simp
  show ?thesis
    by (intro conjI) (fact m1 m2 w nb)+
qed

text \<open>
  C2, amended. Every shared-LED render is in exactly one of the three modes off,
  steady colour and blinking, decided by the winning source. An off render writes 0 to
  the three brightness sinks and to the three blink-enable sinks. A steady-colour
  render writes the three brightness values of the winner and nothing else, and a
  blinking render writes the fifteen ramp parameters and nothing else: neither writes a
  blink-enable sink, which the code clears only when all three channels are zero.
\<close>

theorem shared_led_modes:
  "(spec_winner s = None \<longrightarrow>
      spec_mode s = Off
      \<and> written s (setSpeakerBatteryLightLocked s) =
          [(mRedLed, Num 0), (mGreenLed, Num 0), (mBlueLed, Num 0),
           (mRedBlink, Num 0), (mGreenBlink, Num 0), (mBlueBlink, Num 0)])
   \<and> (spec_winner s = Some w \<and> \<not> spec_blinks w \<longrightarrow>
      spec_mode s = SteadyColor
      \<and> written s (setSpeakerBatteryLightLocked s) =
          [(mRedLed, Num (uint (drop_bit 16 (color w) AND 0xff))),
           (mGreenLed, Num (uint (drop_bit 8 (color w) AND 0xff))),
           (mBlueLed, Num (uint (color w AND 0xff)))])
   \<and> (spec_winner s = Some w \<and> spec_blinks w \<longrightarrow>
      spec_mode s = Blinking
      \<and> fst ` set (written s (setSpeakerBatteryLightLocked s)) =
          {mRedStartIdx, mRedDutyPcts, mRedPauseLo, mRedPauseHi, mRedRampStepMs,
           mGreenStartIdx, mGreenDutyPcts, mGreenPauseLo, mGreenPauseHi, mGreenRampStepMs,
           mBlueStartIdx, mBlueDutyPcts, mBluePauseLo, mBluePauseHi, mBlueRampStepMs})"
proof (intro conjI impI)
  assume none: "spec_winner s = None"
  then show "spec_mode s = Off"
    by (simp add: spec_mode_def)
  have "\<not> isLit (mNotificationState s) \<and> \<not> isLit (mAttentionState s)
      \<and> \<not> isLit (mBatteryState s)"
    using none by (simp add: spec_winner_cases split: if_splits)
  then show "written s (setSpeakerBatteryLightLocked s) =
          [(mRedLed, Num 0), (mGreenLed, Num 0), (mBlueLed, Num 0),
           (mRedBlink, Num 0), (mGreenBlink, Num 0), (mBlueBlink, Num 0)]"
    by (simp add: written_def render_off_out)
next
  assume steady: "spec_winner s = Some w \<and> \<not> spec_blinks w"
  then show "spec_mode s = SteadyColor"
    by (simp add: spec_mode_def)
  have "color w AND 0x00ffffff \<noteq> 0"
    using steady spec_winner_lit by blast
  moreover have "\<not> (flashMode w = TIMED \<and> 0 < sint (flashOnMs w) \<and> 0 < sint (flashOffMs w))"
    using steady by (simp add: spec_blinks_def)
  ultimately have "out (setSpeakerLightLocked w s) = out s @
          [(mRedLed, Num (uint (drop_bit 16 (color w) AND 0xff))),
           (mGreenLed, Num (uint (drop_bit 8 (color w) AND 0xff))),
           (mBlueLed, Num (uint (color w AND 0xff)))]"
    by (simp add: speaker_steady_out)
  then show "written s (setSpeakerBatteryLightLocked s) =
          [(mRedLed, Num (uint (drop_bit 16 (color w) AND 0xff))),
           (mGreenLed, Num (uint (drop_bit 8 (color w) AND 0xff))),
           (mBlueLed, Num (uint (color w AND 0xff)))]"
    using steady by (simp add: render_winner written_def)
next
  assume blink: "spec_winner s = Some w \<and> spec_blinks w"
  then show "spec_mode s = Blinking"
    by (simp add: spec_mode_def)
  have "flashMode w = TIMED" "0 < sint (flashOnMs w)" "0 < sint (flashOffMs w)"
    using blink by (simp_all add: spec_blinks_def)
  from speaker_blink_out [OF this, of s]
  show "fst ` set (written s (setSpeakerBatteryLightLocked s)) =
          {mRedStartIdx, mRedDutyPcts, mRedPauseLo, mRedPauseHi, mRedRampStepMs,
           mGreenStartIdx, mGreenDutyPcts, mGreenPauseLo, mGreenPauseHi, mGreenRampStepMs,
           mBlueStartIdx, mBlueDutyPcts, mBluePauseLo, mBluePauseHi, mBlueRampStepMs}"
    using blink by (simp add: render_winner written_def)
qed


theorem shared_led_modes_witness:
  "spec_winner (ex_light (ex_steady 0) (ex_steady 0) (ex_steady 0)) = None
   \<and> spec_mode (ex_light (ex_steady 0) (ex_steady 0) (ex_steady 0)) = Off
   \<and> written (ex_light (ex_steady 0) (ex_steady 0) (ex_steady 0))
        (setSpeakerBatteryLightLocked (ex_light (ex_steady 0) (ex_steady 0) (ex_steady 0)))
       = [(mRedLed, Num 0), (mGreenLed, Num 0), (mBlueLed, Num 0),
          (mRedBlink, Num 0), (mGreenBlink, Num 0), (mBlueBlink, Num 0)]
   \<and> spec_winner (ex_light (ex_steady 0x00ff00) (ex_steady 0) (ex_steady 0))
       = Some (ex_steady 0x00ff00)
   \<and> \<not> spec_blinks (ex_steady 0x00ff00)
   \<and> spec_mode (ex_light (ex_steady 0x00ff00) (ex_steady 0) (ex_steady 0)) = SteadyColor
   \<and> written (ex_light (ex_steady 0x00ff00) (ex_steady 0) (ex_steady 0))
        (setSpeakerBatteryLightLocked (ex_light (ex_steady 0x00ff00) (ex_steady 0) (ex_steady 0)))
       = [(mRedLed, Num 0), (mGreenLed, Num 255), (mBlueLed, Num 0)]
   \<and> spec_winner (ex_light (ex_steady 0) (ex_steady 0) (ex_timed 0xff0000 1000 500))
       = Some (ex_timed 0xff0000 1000 500)
   \<and> spec_blinks (ex_timed 0xff0000 1000 500)
   \<and> spec_mode (ex_light (ex_steady 0) (ex_steady 0) (ex_timed 0xff0000 1000 500)) = Blinking
   \<and> fst ` set (written (ex_light (ex_steady 0) (ex_steady 0) (ex_timed 0xff0000 1000 500))
        (setSpeakerBatteryLightLocked
           (ex_light (ex_steady 0) (ex_steady 0) (ex_timed 0xff0000 1000 500)))) =
          {mRedStartIdx, mRedDutyPcts, mRedPauseLo, mRedPauseHi, mRedRampStepMs,
           mGreenStartIdx, mGreenDutyPcts, mGreenPauseLo, mGreenPauseHi, mGreenRampStepMs,
           mBlueStartIdx, mBlueDutyPcts, mBluePauseLo, mBluePauseHi, mBlueRampStepMs}"
proof -
  let ?off = "ex_light (ex_steady 0) (ex_steady 0) (ex_steady 0)"
  let ?steady = "ex_light (ex_steady 0x00ff00) (ex_steady 0) (ex_steady 0)"
  let ?blink = "ex_light (ex_steady 0) (ex_steady 0) (ex_timed 0xff0000 1000 500)"
  have w0: "spec_winner ?off = None"
    by (simp add: spec_winner_def Light_constructor_def)
  have w1: "spec_winner ?steady = Some (ex_steady 0x00ff00)"
    by (simp add: spec_winner_def Light_constructor_def)
  have b1: "\<not> spec_blinks (ex_steady 0x00ff00)"
    by (simp add: spec_blinks_def)
  have w2: "spec_winner ?blink = Some (ex_timed 0xff0000 1000 500)"
    by (simp add: spec_winner_def Light_constructor_def)
  have b2: "spec_blinks (ex_timed 0xff0000 1000 500)"
    by (simp add: spec_blinks_def)
  have off: "spec_mode ?off = Off \<and> written ?off (setSpeakerBatteryLightLocked ?off)
       = [(mRedLed, Num 0), (mGreenLed, Num 0), (mBlueLed, Num 0),
          (mRedBlink, Num 0), (mGreenBlink, Num 0), (mBlueBlink, Num 0)]"
    using w0 shared_led_modes [of ?off] by blast
  have steady: "spec_mode ?steady = SteadyColor
     \<and> written ?steady (setSpeakerBatteryLightLocked ?steady)
       = [(mRedLed, Num 0), (mGreenLed, Num 255), (mBlueLed, Num 0)]"
    using w1 b1 shared_led_modes [of ?steady "ex_steady 0x00ff00"] by simp
  have blink: "spec_mode ?blink = Blinking
     \<and> fst ` set (written ?blink (setSpeakerBatteryLightLocked ?blink)) =
          {mRedStartIdx, mRedDutyPcts, mRedPauseLo, mRedPauseHi, mRedRampStepMs,
           mGreenStartIdx, mGreenDutyPcts, mGreenPauseLo, mGreenPauseHi, mGreenRampStepMs,
           mBlueStartIdx, mBlueDutyPcts, mBluePauseLo, mBluePauseHi, mBlueRampStepMs}"
    using w2 b2 shared_led_modes [of ?blink "ex_timed 0xff0000 1000 500"] by blast
  show ?thesis
    using w0 off w1 b1 steady w2 b2 blink by blast
qed

end
